theory Spec2Isabelle
  imports Complex_Main
begin

section \<open>Scalars\<close>

text \<open>
  The solver computes with JAX floating-point scalars. The source itself puts
  \<^verbatim>\<open>jnp.inf\<close> into the initial state and branches on comparisons, so the special
  values are part of the model: a scalar is a finite value, one of the two infinities, or
  NaN. The operations follow the IEEE 754 rules for special values (NaN propagates,
  \<open>inf - inf\<close> and \<open>0 * inf\<close> are NaN, every ordered comparison with NaN is false).
  On finite values the arithmetic is that of the real numbers: rounding, overflow and
  underflow are not modelled, and zero is the positive zero.
\<close>

datatype scalar = Fin real | PInf | NInf | NaN

fun fneg :: "scalar \<Rightarrow> scalar" where
  "fneg (Fin a) = Fin (- a)"
| "fneg PInf = NInf"
| "fneg NInf = PInf"
| "fneg NaN = NaN"

fun fadd :: "scalar \<Rightarrow> scalar \<Rightarrow> scalar" where
  "fadd NaN b = NaN"
| "fadd a NaN = NaN"
| "fadd (Fin a) (Fin b) = Fin (a + b)"
| "fadd PInf NInf = NaN"
| "fadd NInf PInf = NaN"
| "fadd PInf b = PInf"
| "fadd a PInf = PInf"
| "fadd NInf b = NInf"
| "fadd a NInf = NInf"

definition fsub :: "scalar \<Rightarrow> scalar \<Rightarrow> scalar" where
  "fsub a b = fadd a (fneg b)"

fun fmul :: "scalar \<Rightarrow> scalar \<Rightarrow> scalar" where
  "fmul NaN b = NaN"
| "fmul a NaN = NaN"
| "fmul (Fin a) (Fin b) = Fin (a * b)"
| "fmul (Fin a) PInf = (if a = 0 then NaN else if 0 < a then PInf else NInf)"
| "fmul (Fin a) NInf = (if a = 0 then NaN else if 0 < a then NInf else PInf)"
| "fmul PInf (Fin b) = (if b = 0 then NaN else if 0 < b then PInf else NInf)"
| "fmul NInf (Fin b) = (if b = 0 then NaN else if 0 < b then NInf else PInf)"
| "fmul PInf PInf = PInf"
| "fmul PInf NInf = NInf"
| "fmul NInf PInf = NInf"
| "fmul NInf NInf = PInf"

fun fdiv :: "scalar \<Rightarrow> scalar \<Rightarrow> scalar" where
  "fdiv NaN b = NaN"
| "fdiv a NaN = NaN"
| "fdiv (Fin a) (Fin b) =
     (if b = 0 then (if a = 0 then NaN else if 0 < a then PInf else NInf)
      else Fin (a / b))"
| "fdiv (Fin a) PInf = Fin 0"
| "fdiv (Fin a) NInf = Fin 0"
| "fdiv PInf (Fin b) = (if 0 \<le> b then PInf else NInf)"
| "fdiv NInf (Fin b) = (if 0 \<le> b then NInf else PInf)"
| "fdiv PInf PInf = NaN"
| "fdiv PInf NInf = NaN"
| "fdiv NInf PInf = NaN"
| "fdiv NInf NInf = NaN"

fun fsqrt :: "scalar \<Rightarrow> scalar" where
  "fsqrt (Fin a) = (if a < 0 then NaN else Fin (sqrt a))"
| "fsqrt PInf = PInf"
| "fsqrt NInf = NaN"
| "fsqrt NaN = NaN"

fun flt :: "scalar \<Rightarrow> scalar \<Rightarrow> bool" where
  "flt NaN b = False"
| "flt a NaN = False"
| "flt (Fin a) (Fin b) = (a < b)"
| "flt a PInf = (a \<noteq> PInf)"
| "flt PInf b = False"
| "flt NInf b = (b \<noteq> NInf)"
| "flt a NInf = False"

fun fle :: "scalar \<Rightarrow> scalar \<Rightarrow> bool" where
  "fle NaN b = False"
| "fle a NaN = False"
| "fle (Fin a) (Fin b) = (a \<le> b)"
| "fle a PInf = True"
| "fle NInf b = True"
| "fle PInf b = False"
| "fle a NInf = False"

definition fgt :: "scalar \<Rightarrow> scalar \<Rightarrow> bool" where
  "fgt a b = flt b a"

definition fge :: "scalar \<Rightarrow> scalar \<Rightarrow> bool" where
  "fge a b = fle b a"

fun fsum :: "scalar list \<Rightarrow> scalar" where
  "fsum [] = Fin 0"
| "fsum (a # as) = fadd a (fsum as)"

section \<open>Points and the operations on them\<close>

text \<open>
  A point is a pytree of arrays. The solver only ever combines points of one structure
  (the proximity operator and the gradient return points shaped like their argument), so
  a point is modelled as a function from the positions \<open>'n\<close> of its leaves' entries to
  scalars; the positions are enumerated by \<open>enum_class.enum\<close>.
\<close>

type_synonym 'n point = "'n \<Rightarrow> scalar"

text \<open>
  Modelled from the spec: the module \<^verbatim>\<open>jaxopt.tree_util\<close> (\<^verbatim>\<open>tree_sub\<close>,
  \<^verbatim>\<open>tree_add_scalar_mul\<close>, \<^verbatim>\<open>tree_vdot\<close>, \<^verbatim>\<open>tree_l2_norm\<close>) is not among the
  sources. The spec describes elementwise arithmetic, scalar-multiply-and-add,
  dot product and L2 norm, applied leaf-wise and aggregated.
\<close>

definition tree_sub :: "'n point \<Rightarrow> 'n point \<Rightarrow> 'n point" where
  "tree_sub tree_x tree_y = (\<lambda>i. fsub (tree_x i) (tree_y i))"

definition tree_add_scalar_mul :: "'n point \<Rightarrow> scalar \<Rightarrow> 'n point \<Rightarrow> 'n point" where
  "tree_add_scalar_mul tree_x scalar tree_y = (\<lambda>i. fadd (tree_x i) (fmul scalar (tree_y i)))"

definition tree_vdot :: "('n::enum) point \<Rightarrow> 'n point \<Rightarrow> scalar" where
  "tree_vdot tree_x tree_y = fsum (map (\<lambda>i. fmul (tree_x i) (tree_y i)) enum_class.enum)"

definition tree_l2_norm :: "('n::enum) point \<Rightarrow> bool \<Rightarrow> scalar" where
  "tree_l2_norm tree_x squared =
     (let sqnorm = fsum (map (\<lambda>i. fmul (tree_x i) (tree_x i)) enum_class.enum)
      in if squared then sqnorm else fsqrt sqnorm)"

section \<open>The bounded loop\<close>

text \<open>
  Modelled from the spec: \<^verbatim>\<open>jaxopt.loop.while_loop\<close> is not among the sources. The
  spec describes a bounded loop with early exit: continue while the predicate holds, one
  call of the body per iteration, at most \<open>maxiter\<close> iterations, no error when the cap is
  reached. Its compiled form runs a fixed number of iterations and freezes the state
  once the predicate fails, which gives the same result; \<open>unroll\<close> and \<open>jit\<close> select
  between these forms and do not change the value returned.
\<close>

fun while_loop ::
  "('a \<Rightarrow> bool) \<Rightarrow> ('a \<Rightarrow> 'a) \<Rightarrow> 'a \<Rightarrow> nat \<Rightarrow> bool \<Rightarrow> bool \<Rightarrow> 'a" where
  "while_loop cond_fun body_fun init_val 0 unroll jit = init_val"
| "while_loop cond_fun body_fun init_val (Suc maxiter) unroll jit =
     (if cond_fun init_val
      then while_loop cond_fun body_fun (body_fun init_val) maxiter unroll jit
      else init_val)"

text \<open>
  The number of calls of the body that \<open>while_loop\<close> makes: the loop returns no count,
  and statements about how many iterations were performed refer to this function.
\<close>

fun while_loop_iters :: "('a \<Rightarrow> bool) \<Rightarrow> ('a \<Rightarrow> 'a) \<Rightarrow> 'a \<Rightarrow> nat \<Rightarrow> nat" where
  "while_loop_iters cond_fun body_fun init_val 0 = 0"
| "while_loop_iters cond_fun body_fun init_val (Suc maxiter) =
     (if cond_fun init_val
      then Suc (while_loop_iters cond_fun body_fun (body_fun init_val) maxiter)
      else 0)"

section \<open>The prox-gradient step\<close>

type_synonym ('n, 'pp) prox = "'n point \<Rightarrow> 'pp \<Rightarrow> scalar \<Rightarrow> 'n point"
type_synonym 'n prox_grad = "'n point \<Rightarrow> 'n point \<Rightarrow> scalar \<Rightarrow> 'n point"
type_synonym ('n, 'pf) objective = "'n point \<Rightarrow> 'pf \<Rightarrow> scalar"
type_synonym ('n, 'pf) gradient = "'n point \<Rightarrow> 'pf \<Rightarrow> 'n point"

definition make_prox_grad :: "('n, 'pp) prox \<Rightarrow> 'pp \<Rightarrow> 'n prox_grad" where
  "make_prox_grad prox params_prox =
     (\<lambda>curr_x curr_x_fun_grad curr_stepsize.
        let update = tree_add_scalar_mul curr_x (fneg curr_stepsize) curr_x_fun_grad
        in prox update params_prox curr_stepsize)"

section \<open>The backtracking line search\<close>

text \<open>
  \<open>func\<close> is the objective (\<^verbatim>\<open>fun\<close> in the source). \<open>eps\<close> stands for
  \<^verbatim>\<open>jnp.finfo(curr_x_fun_val.dtype).eps\<close>, a constant of the numeric library fixed by
  the dtype of the objective value; it is a parameter here.
\<close>

type_synonym 'n ls_args = "'n point \<times> scalar"

definition linesearch_cond_fun ::
  "('n::enum, 'pf) objective \<Rightarrow> 'pf \<Rightarrow> scalar \<Rightarrow> 'n point \<Rightarrow> scalar \<Rightarrow> 'n point
     \<Rightarrow> 'n ls_args \<Rightarrow> bool" where
  "linesearch_cond_fun func params_fun eps curr_x curr_x_fun_val curr_x_fun_grad args =
     (case args of (next_x, stepsize) \<Rightarrow>
        let diff_x = tree_sub next_x curr_x;
            sqdist = tree_l2_norm diff_x True;
            fun_decrease = fmul stepsize (fsub (func next_x params_fun) curr_x_fun_val);
            condition = fadd (fmul stepsize (tree_vdot diff_x curr_x_fun_grad))
                             (fmul (Fin (1/2)) sqdist)
        in fgt fun_decrease (fadd condition eps))"

definition linesearch_body_fun ::
  "'n prox_grad \<Rightarrow> scalar \<Rightarrow> 'n point \<Rightarrow> 'n point \<Rightarrow> 'n ls_args \<Rightarrow> 'n ls_args" where
  "linesearch_body_fun prox_grad stepfactor curr_x curr_x_fun_grad args =
     (let stepsize = snd args;
          next_stepsize = fmul stepsize stepfactor;
          next_x = prox_grad curr_x curr_x_fun_grad next_stepsize
      in (next_x, next_stepsize))"

definition make_linesearch ::
  "('n::enum, 'pf) objective \<Rightarrow> 'pf \<Rightarrow> 'n prox_grad \<Rightarrow> nat \<Rightarrow> scalar \<Rightarrow> bool \<Rightarrow> scalar
     \<Rightarrow> 'n point \<Rightarrow> scalar \<Rightarrow> 'n point \<Rightarrow> scalar \<Rightarrow> 'n ls_args" where
  "make_linesearch func params_fun prox_grad maxls stepfactor unroll eps =
     (\<lambda>curr_x curr_x_fun_val curr_x_fun_grad curr_stepsize.
        let init_x = prox_grad curr_x curr_x_fun_grad curr_stepsize;
            init_val = (init_x, curr_stepsize)
        in while_loop
             (linesearch_cond_fun func params_fun eps curr_x curr_x_fun_val curr_x_fun_grad)
             (linesearch_body_fun prox_grad stepfactor curr_x curr_x_fun_grad)
             init_val maxls unroll True)"

section \<open>One iteration\<close>

text \<open>
  \<open>grad_fun\<close> stands for \<^verbatim>\<open>jax.grad(fun)\<close>, the gradient oracle supplied by automatic
  differentiation; \<^verbatim>\<open>jax.value_and_grad(fun)\<close> returns the objective value together
  with it, and \<^verbatim>\<open>jax.jit\<close> does not change values. The closures that
  \<^verbatim>\<open>_make_pg_body_fun\<close> builds take what they capture as leading arguments.
\<close>

definition value_and_grad_fun ::
  "('n, 'pf) objective \<Rightarrow> ('n, 'pf) gradient \<Rightarrow> 'n point \<Rightarrow> 'pf \<Rightarrow> scalar \<times> 'n point" where
  "value_and_grad_fun func grad_fun x params_fun = (func x params_fun, grad_fun x params_fun)"

definition error_fun :: "('n::enum) prox_grad \<Rightarrow> 'n point \<Rightarrow> 'n point \<Rightarrow> scalar" where
  "error_fun prox_grad curr_x curr_x_fun_grad =
     (let next_x = prox_grad curr_x curr_x_fun_grad (Fin 1);
          diff_x = tree_sub next_x curr_x
      in tree_l2_norm diff_x False)"

definition iter ::
  "scalar \<Rightarrow> scalar \<Rightarrow> ('n point \<Rightarrow> scalar \<Rightarrow> 'n point \<Rightarrow> scalar \<Rightarrow> 'n ls_args) \<Rightarrow> 'n prox_grad
     \<Rightarrow> 'n point \<Rightarrow> scalar \<Rightarrow> 'n point \<Rightarrow> scalar \<Rightarrow> 'n point \<times> scalar" where
  "iter stepsize stepfactor linesearch prox_grad curr_x curr_x_fun_val curr_x_fun_grad curr_stepsize =
     (if fle stepsize (Fin 0) then
        (case linesearch curr_x curr_x_fun_val curr_x_fun_grad curr_stepsize of
           (next_x, next_stepsize) \<Rightarrow>
             let next_stepsize' =
                   (if fle next_stepsize (Fin (1/1000000)) then Fin 1
                    else fdiv next_stepsize stepfactor)
             in (next_x, next_stepsize'))
      else
        (let next_x = prox_grad curr_x curr_x_fun_grad stepsize
         in (next_x, stepsize)))"

type_synonym 'n pg_args = "nat \<times> 'n point \<times> scalar \<times> scalar"
type_synonym 'n apg_args = "nat \<times> 'n point \<times> 'n point \<times> scalar \<times> scalar \<times> scalar"

definition body_fun_proximal_gradient ::
  "('n::enum, 'pf) objective \<Rightarrow> ('n, 'pf) gradient \<Rightarrow> 'pf
     \<Rightarrow> ('n point \<Rightarrow> scalar \<Rightarrow> 'n point \<Rightarrow> scalar \<Rightarrow> 'n point \<times> scalar) \<Rightarrow> ('n point \<Rightarrow> 'n point \<Rightarrow> scalar)
     \<Rightarrow> 'n pg_args \<Rightarrow> 'n pg_args" where
  "body_fun_proximal_gradient func grad_fun params_fun iter' error_fun' args =
     (case args of (iter_num, curr_x, curr_stepsize, _) \<Rightarrow>
        (case value_and_grad_fun func grad_fun curr_x params_fun of
           (curr_x_fun_val, curr_x_fun_grad) \<Rightarrow>
             (case iter' curr_x curr_x_fun_val curr_x_fun_grad curr_stepsize of
                (next_x, next_stepsize) \<Rightarrow>
                  let curr_error = error_fun' curr_x curr_x_fun_grad
                  in (iter_num + 1, next_x, next_stepsize, curr_error))))"

definition body_fun_accelerated_proximal_gradient ::
  "('n::enum, 'pf) objective \<Rightarrow> ('n, 'pf) gradient \<Rightarrow> 'pf
     \<Rightarrow> ('n point \<Rightarrow> scalar \<Rightarrow> 'n point \<Rightarrow> scalar \<Rightarrow> 'n point \<times> scalar) \<Rightarrow> ('n point \<Rightarrow> 'n point \<Rightarrow> scalar)
     \<Rightarrow> 'n apg_args \<Rightarrow> 'n apg_args" where
  "body_fun_accelerated_proximal_gradient func grad_fun params_fun iter' error_fun' args =
     (case args of (iter_num, curr_x, curr_y, curr_t, curr_stepsize, _) \<Rightarrow>
        (case value_and_grad_fun func grad_fun curr_y params_fun of
           (curr_y_fun_val, curr_y_fun_grad) \<Rightarrow>
             (case iter' curr_y curr_y_fun_val curr_y_fun_grad curr_stepsize of
                (next_x, next_stepsize) \<Rightarrow>
                  let next_t = fmul (Fin (1/2))
                                 (fadd (Fin 1) (fsqrt (fadd (Fin 1) (fmul (Fin 4) (fmul curr_t curr_t)))));
                      diff_x = tree_sub next_x curr_x;
                      next_y = tree_add_scalar_mul next_x (fdiv (fsub curr_t (Fin 1)) next_t) diff_x;
                      next_x_fun_grad = grad_fun next_x params_fun;
                      next_error = error_fun' next_x next_x_fun_grad
                  in (iter_num + 1, next_x, next_y, next_t, next_stepsize, next_error))))"

text \<open>
  \<^verbatim>\<open>_make_pg_body_fun\<close> builds both bodies over the same closures and returns the one
  that \<open>acceleration\<close> selects. The two bodies act on state tuples of different shapes,
  so the model returns the pair and the caller takes the component for its
  \<open>acceleration\<close>, next to the initial state chosen by the same flag.
\<close>

definition make_pg_body_fun ::
  "('n::enum, 'pf) objective \<Rightarrow> ('n, 'pf) gradient \<Rightarrow> 'pf \<Rightarrow> ('n, 'pp) prox \<Rightarrow> 'pp
     \<Rightarrow> scalar \<Rightarrow> nat \<Rightarrow> bool \<Rightarrow> scalar \<Rightarrow> scalar
     \<Rightarrow> ('n pg_args \<Rightarrow> 'n pg_args) \<times> ('n apg_args \<Rightarrow> 'n apg_args)" where
  "make_pg_body_fun func grad_fun params_fun prox params_prox stepsize maxls unroll_ls stepfactor eps =
     (let prox_grad = make_prox_grad prox params_prox;
          linesearch = make_linesearch func params_fun prox_grad maxls stepfactor unroll_ls eps;
          error_fun' = error_fun prox_grad;
          iter' = iter stepsize stepfactor linesearch prox_grad
      in (body_fun_proximal_gradient func grad_fun params_fun iter' error_fun',
          body_fun_accelerated_proximal_gradient func grad_fun params_fun iter' error_fun'))"

section \<open>The outer driver\<close>

text \<open>
  Modelled from the spec: \<^verbatim>\<open>base.OptimizeResults\<close> is not among the sources; the spec
  describes a structured result bundling the final point, the iterations taken and the
  final error.
\<close>

datatype 'n optimize_results =
  OptimizeResults (opt_x: "'n point") (opt_nit: nat) (opt_error: scalar)

datatype 'n solution = Solution "'n point" | Info "'n optimize_results"

text \<open>
  \<^verbatim>\<open>cond_fun\<close> reads \<^verbatim>\<open>args[-1]\<close>, the error, whatever the shape of the state; it is
  written once per shape. With \<open>verbose\<close> it also prints the iteration number and the
  error, which does not change the value it returns.
\<close>

definition cond_fun :: "scalar \<Rightarrow> 'n pg_args \<Rightarrow> bool" where
  "cond_fun tol args = (case args of (iter_num, curr_x, curr_stepsize, error) \<Rightarrow> fgt error tol)"

definition cond_fun_accelerated :: "scalar \<Rightarrow> 'n apg_args \<Rightarrow> bool" where
  "cond_fun_accelerated tol args =
     (case args of (iter_num, curr_x, curr_y, curr_t, curr_stepsize, error) \<Rightarrow> fgt error tol)"

definition init_args :: "'n point \<Rightarrow> 'n pg_args" where
  "init_args init = (0, init, Fin 1, PInf)"

definition init_args_accelerated :: "'n point \<Rightarrow> 'n apg_args" where
  "init_args_accelerated init = (0, init, init, Fin 1, Fin 1, PInf)"

text \<open>
  \<^verbatim>\<open>_proximal_gradient\<close> does not pass \<open>stepfactor\<close> to \<^verbatim>\<open>_make_pg_body_fun\<close>, which
  therefore takes its default 0.5.
\<close>

definition proximal_gradient ::
  "('n::enum, 'pf) objective \<Rightarrow> ('n, 'pf) gradient \<Rightarrow> 'n point \<Rightarrow> 'pf \<Rightarrow> ('n, 'pp) prox \<Rightarrow> 'pp
     \<Rightarrow> scalar \<Rightarrow> nat \<Rightarrow> nat \<Rightarrow> scalar \<Rightarrow> bool \<Rightarrow> bool \<Rightarrow> bool \<Rightarrow> bool \<Rightarrow> scalar
     \<Rightarrow> 'n solution" where
  "proximal_gradient func grad_fun init params_fun prox params_prox stepsize maxiter maxls tol
       acceleration verbose implicit_diff ret_info eps =
     (let body_fun = make_pg_body_fun func grad_fun params_fun prox params_prox stepsize maxls
                       (\<not> implicit_diff) (Fin (1/2)) eps;
          jit = (\<not> verbose);
          unroll = (\<not> implicit_diff \<or> \<not> jit)
      in if acceleration then
           (case while_loop (cond_fun_accelerated tol) (snd body_fun)
                   (init_args_accelerated init) maxiter unroll jit of
              (iter_num, curr_x, curr_y, curr_t, curr_stepsize, error) \<Rightarrow>
                if ret_info then Info (OptimizeResults curr_x iter_num error)
                else Solution curr_x)
         else
           (case while_loop (cond_fun tol) (fst body_fun) (init_args init) maxiter unroll jit of
              (iter_num, curr_x, curr_stepsize, error) \<Rightarrow>
                if ret_info then Info (OptimizeResults curr_x iter_num error)
                else Solution curr_x))"

section \<open>Notions the claims are stated with\<close>

text \<open>
  The number of outer iterations a call of the solver performs (calls of the iteration
  body by the outer loop).
\<close>

definition outer_iters ::
  "('n::enum, 'pf) objective \<Rightarrow> ('n, 'pf) gradient \<Rightarrow> 'n point \<Rightarrow> 'pf \<Rightarrow> ('n, 'pp) prox \<Rightarrow> 'pp
     \<Rightarrow> scalar \<Rightarrow> nat \<Rightarrow> nat \<Rightarrow> scalar \<Rightarrow> bool \<Rightarrow> bool \<Rightarrow> scalar \<Rightarrow> nat" where
  "outer_iters func grad_fun init params_fun prox params_prox stepsize maxiter maxls tol
       acceleration implicit_diff eps =
     (let body_fun = make_pg_body_fun func grad_fun params_fun prox params_prox stepsize maxls
                       (\<not> implicit_diff) (Fin (1/2)) eps
      in if acceleration
         then while_loop_iters (cond_fun_accelerated tol) (snd body_fun)
                (init_args_accelerated init) maxiter
         else while_loop_iters (cond_fun tol) (fst body_fun) (init_args init) maxiter)"

text \<open>
  The number of shrink attempts a call of the line search performs (calls of its body),
  and the trial step size after \<open>k\<close> of them.
\<close>

definition ls_attempts ::
  "('n::enum, 'pf) objective \<Rightarrow> 'pf \<Rightarrow> 'n prox_grad \<Rightarrow> nat \<Rightarrow> scalar \<Rightarrow> scalar
     \<Rightarrow> 'n point \<Rightarrow> scalar \<Rightarrow> 'n point \<Rightarrow> scalar \<Rightarrow> nat" where
  "ls_attempts func params_fun prox_grad maxls stepfactor eps x f_x grad_x step_size0 =
     while_loop_iters
       (linesearch_cond_fun func params_fun eps x f_x grad_x)
       (linesearch_body_fun prox_grad stepfactor x grad_x)
       (prox_grad x grad_x step_size0, step_size0) maxls"

definition shrunk :: "scalar \<Rightarrow> nat \<Rightarrow> scalar \<Rightarrow> scalar" where
  "shrunk stepfactor k step_size0 = ((\<lambda>t. fmul t stepfactor) ^^ k) step_size0"

text \<open>
  The sufficient-decrease inequality in the words of the spec:
  \<^verbatim>\<open>step_size * (f(x_next) - f_x) <= step_size * <grad_x, x_next - x> + 0.5 * ||x_next - x||^2 + eps\<close>.
\<close>

definition fun_decrease_of ::
  "('n, 'pf) objective \<Rightarrow> 'pf \<Rightarrow> scalar \<Rightarrow> 'n point \<Rightarrow> scalar \<Rightarrow> scalar" where
  "fun_decrease_of func params_fun f_x x_next step_size =
     fmul step_size (fsub (func x_next params_fun) f_x)"

definition decrease_bound ::
  "scalar \<Rightarrow> ('n::enum) point \<Rightarrow> 'n point \<Rightarrow> 'n point \<Rightarrow> scalar \<Rightarrow> scalar" where
  "decrease_bound eps x grad_x x_next step_size =
     fadd (fadd (fmul step_size (tree_vdot grad_x (tree_sub x_next x)))
                (fmul (Fin (1/2)) (tree_l2_norm (tree_sub x_next x) True)))
          eps"

definition sufficient_decrease ::
  "('n::enum, 'pf) objective \<Rightarrow> 'pf \<Rightarrow> scalar \<Rightarrow> 'n point \<Rightarrow> scalar \<Rightarrow> 'n point
     \<Rightarrow> 'n point \<Rightarrow> scalar \<Rightarrow> bool" where
  "sufficient_decrease func params_fun eps x f_x grad_x x_next step_size =
     fle (fun_decrease_of func params_fun f_x x_next step_size)
         (decrease_bound eps x grad_x x_next step_size)"

text \<open>
  The fixed-point residual, the prox-gradient step, the momentum update, the extrapolation
  and the step-size adaptation in the words of the spec:
  \<^verbatim>\<open>||x - prox(x - 1.0 * grad, params_prox, 1.0)||\<close>,
  \<^verbatim>\<open>prox(x - step_size * grad, params_prox, step_size)\<close>,
  \<^verbatim>\<open>0.5 * (1 + sqrt(1 + 4 * t^2))\<close>,
  \<^verbatim>\<open>x_next + ((t - 1) / t_next) * (x_next - x)\<close>, and
  "1.0 if the accepted step size is at or below 1e-6, the accepted step size divided by
  the shrink factor otherwise".
\<close>

definition fixed_point_residual ::
  "('n::enum, 'pp) prox \<Rightarrow> 'pp \<Rightarrow> 'n point \<Rightarrow> 'n point \<Rightarrow> scalar" where
  "fixed_point_residual prox params_prox x grad_x =
     tree_l2_norm
       (tree_sub x (prox (tree_sub x (\<lambda>i. fmul (Fin 1) (grad_x i))) params_prox (Fin 1)))
       False"

definition prox_step :: "('n, 'pp) prox \<Rightarrow> 'pp \<Rightarrow> 'n point \<Rightarrow> 'n point \<Rightarrow> scalar \<Rightarrow> 'n point" where
  "prox_step prox params_prox x grad_x step_size =
     prox (tree_sub x (\<lambda>i. fmul step_size (grad_x i))) params_prox step_size"

definition momentum_update :: "scalar \<Rightarrow> scalar" where
  "momentum_update t =
     fmul (Fin (1/2)) (fadd (Fin 1) (fsqrt (fadd (Fin 1) (fmul (Fin 4) (fmul t t)))))"

definition extrapolate :: "'n point \<Rightarrow> 'n point \<Rightarrow> scalar \<Rightarrow> scalar \<Rightarrow> 'n point" where
  "extrapolate x x_next t t_next =
     (\<lambda>i. fadd (x_next i) (fmul (fdiv (fsub t (Fin 1)) t_next) (fsub (x_next i) (x i))))"

definition next_trial_step_size :: "scalar \<Rightarrow> scalar \<Rightarrow> scalar" where
  "next_trial_step_size stepfactor accepted =
     (if fle accepted (Fin (1/1000000)) then Fin 1 else fdiv accepted stepfactor)"

text \<open>The components of the two state tuples.\<close>

definition pg_iter_num :: "'n pg_args \<Rightarrow> nat" where
  "pg_iter_num args = fst args"
definition pg_x :: "'n pg_args \<Rightarrow> 'n point" where
  "pg_x args = fst (snd args)"
definition pg_stepsize :: "'n pg_args \<Rightarrow> scalar" where
  "pg_stepsize args = fst (snd (snd args))"
definition pg_error :: "'n pg_args \<Rightarrow> scalar" where
  "pg_error args = snd (snd (snd args))"

definition apg_iter_num :: "'n apg_args \<Rightarrow> nat" where
  "apg_iter_num args = fst args"
definition apg_x :: "'n apg_args \<Rightarrow> 'n point" where
  "apg_x args = fst (snd args)"
definition apg_y :: "'n apg_args \<Rightarrow> 'n point" where
  "apg_y args = fst (snd (snd args))"
definition apg_t :: "'n apg_args \<Rightarrow> scalar" where
  "apg_t args = fst (snd (snd (snd args)))"
definition apg_stepsize :: "'n apg_args \<Rightarrow> scalar" where
  "apg_stepsize args = fst (snd (snd (snd (snd args))))"
definition apg_error :: "'n apg_args \<Rightarrow> scalar" where
  "apg_error args = snd (snd (snd (snd (snd args))))"

section \<open>Example problems\<close>

text \<open>
  The problems the closed instances below are evaluated on, over points with a single
  entry: no proximal term (\<^verbatim>\<open>prox_none\<close>, the identity), the spec's scenario
  \<open>f(x) = 0.5 * (x - 3)^2\<close>, and \<open>f(x) = sqrt(x)\<close>, whose value and gradient are NaN
  left of zero. \<open>eps32\<close> is the machine epsilon of single precision.
\<close>

definition prox_none :: "('n, unit) prox" where
  "prox_none x params scaling = x"

definition quad_objective :: "(unit, unit) objective" where
  "quad_objective x params =
     fmul (Fin (1/2)) (fmul (fsub (x ()) (Fin 3)) (fsub (x ()) (Fin 3)))"

definition quad_gradient :: "(unit, unit) gradient" where
  "quad_gradient x params = (\<lambda>i. fsub (x i) (Fin 3))"

definition sqrt_objective :: "(unit, unit) objective" where
  "sqrt_objective x params = fsqrt (x ())"

definition sqrt_gradient :: "(unit, unit) gradient" where
  "sqrt_gradient x params = (\<lambda>i. fdiv (Fin (1/2)) (fsqrt (x i)))"

definition eps32 :: scalar where
  "eps32 = Fin (1 / 2 ^ 23)"

abbreviation pt :: "real \<Rightarrow> unit point" where
  "pt a \<equiv> (\<lambda>i. Fin a)"

section \<open>Facts about scalars and points\<close>

lemma fmul_commute: "fmul a b = fmul b a"
  by (cases a; cases b) simp_all

lemma fmul_fneg_left: "fmul (fneg a) b = fneg (fmul a b)"
  by (cases a; cases b) simp_all

lemma not_fgt_iff: "\<not> fgt a b \<longleftrightarrow> fle a b \<or> a = NaN \<or> b = NaN"
  by (cases a; cases b) (auto simp: fgt_def)

lemma fsub_square_swap: "fmul (fsub a b) (fsub a b) = fmul (fsub b a) (fsub b a)"
  by (cases a; cases b) (simp_all add: fsub_def algebra_simps)

lemma tree_vdot_commute: "tree_vdot a b = tree_vdot b a"
  by (simp add: tree_vdot_def fmul_commute)

lemma tree_l2_norm_sub_swap:
  "tree_l2_norm (tree_sub a b) squared = tree_l2_norm (tree_sub b a) squared"
  by (simp add: tree_l2_norm_def tree_sub_def fsub_square_swap)

section \<open>Facts about the bounded loop\<close>

lemma while_loop_funpow:
  "while_loop c b v n u j = (b ^^ while_loop_iters c b v n) v"
  by (induction n arbitrary: v) (simp_all add: funpow_swap1)

lemma while_loop_iters_le: "while_loop_iters c b v n \<le> n"
  by (induction n arbitrary: v) simp_all

lemma while_loop_exit:
  "while_loop_iters c b v n = n \<or> \<not> c (while_loop c b v n u j)"
  by (induction n arbitrary: v) simp_all

lemma while_loop_stop: "\<not> c v \<Longrightarrow> while_loop c b v n u j = v"
  by (cases n) simp_all

lemma while_loop_iters_stop: "\<not> c v \<Longrightarrow> while_loop_iters c b v n = 0"
  by (cases n) simp_all

lemma while_loop_step:
  "c v \<Longrightarrow> while_loop c b v (numeral k) u j = while_loop c b (b v) (pred_numeral k) u j"
  by (simp add: numeral_eq_Suc)

lemma while_loop_iters_step:
  "c v \<Longrightarrow> while_loop_iters c b v (numeral k) =
     Suc (while_loop_iters c b (b v) (pred_numeral k))"
  by (simp add: numeral_eq_Suc)

section \<open>The line search\<close>

lemma linesearch_cond_fun_iff:
  "linesearch_cond_fun func params_fun eps x f_x grad_x (x_next, step_size) \<longleftrightarrow>
     fgt (fun_decrease_of func params_fun f_x x_next step_size)
         (decrease_bound eps x grad_x x_next step_size)"
  by (simp add: linesearch_cond_fun_def fun_decrease_of_def decrease_bound_def Let_def
      tree_vdot_commute)

lemma linesearch_body_funpow:
  "(linesearch_body_fun prox_grad stepfactor x grad_x ^^ k) (prox_grad x grad_x s, s) =
     (prox_grad x grad_x (shrunk stepfactor k s), shrunk stepfactor k s)"
  by (induction k) (simp_all add: linesearch_body_fun_def shrunk_def Let_def)

lemma make_linesearch_eq:
  "make_linesearch func params_fun prox_grad maxls stepfactor unroll eps x f_x grad_x s =
     (let k = ls_attempts func params_fun prox_grad maxls stepfactor eps x f_x grad_x s
      in (prox_grad x grad_x (shrunk stepfactor k s), shrunk stepfactor k s))"
  by (simp add: make_linesearch_def ls_attempts_def Let_def while_loop_funpow
      linesearch_body_funpow)

lemmas ls_eval =
  linesearch_cond_fun_def linesearch_body_fun_def make_prox_grad_def
  tree_sub_def tree_add_scalar_mul_def tree_vdot_def tree_l2_norm_def fsub_def fgt_def
  enum_unit_def Let_def prox_none_def eps32_def

lemma quad_linesearch:
  "make_linesearch quad_objective () (make_prox_grad prox_none ()) 15 (Fin (1/2)) False eps32
     (pt 0) (Fin (9/2)) (pt (- 3)) (Fin 1) = ((pt 3), Fin 1)"
  unfolding make_linesearch_def Let_def
  by (subst while_loop_stop) (simp_all add: ls_eval quad_objective_def)

lemma sqrt_linesearch:
  "make_linesearch sqrt_objective () (make_prox_grad prox_none ()) 15 (Fin (1/2)) False eps32
     (pt 1) (Fin 1) (pt (1/2)) (Fin 4) = ((pt (- 1)), Fin 4)"
  unfolding make_linesearch_def Let_def
  by (subst while_loop_stop) (simp_all add: ls_eval sqrt_objective_def)

lemma sqrt_ls_attempts:
  "ls_attempts sqrt_objective () (make_prox_grad prox_none ()) 15 (Fin (1/2)) eps32
     (pt 1) (Fin 1) (pt (1/2)) (Fin 4) = 0"
  unfolding ls_attempts_def
  by (subst while_loop_iters_stop) (simp_all add: ls_eval sqrt_objective_def)

text \<open>
  C1 (as amended). Whatever point, objective value, gradient and trial step size the line
  search is called with, the pair it returns satisfies the sufficient-decrease inequality,
  or one side of that inequality is NaN, or the search performed \<open>maxls\<close> shrink
  attempts. The search leaves its loop when the test
  \<^verbatim>\<open>fun_decrease > condition + eps\<close> is false, which a NaN on either side makes it.
\<close>

theorem linesearch_acceptance:
  assumes "make_linesearch func params_fun prox_grad maxls stepfactor unroll eps x f_x grad_x s
             = (x_next, step_size)"
  shows "sufficient_decrease func params_fun eps x f_x grad_x x_next step_size
         \<or> fun_decrease_of func params_fun f_x x_next step_size = NaN
         \<or> decrease_bound eps x grad_x x_next step_size = NaN
         \<or> ls_attempts func params_fun prox_grad maxls stepfactor eps x f_x grad_x s = maxls"
proof -
  let ?c = "linesearch_cond_fun func params_fun eps x f_x grad_x"
  let ?b = "linesearch_body_fun prox_grad stepfactor x grad_x"
  let ?v = "(prox_grad x grad_x s, s)"
  let ?k = "ls_attempts func params_fun prox_grad maxls stepfactor eps x f_x grad_x s"
  have "?k = maxls \<or> \<not> ?c (while_loop ?c ?b ?v maxls unroll True)"
    unfolding ls_attempts_def by (rule while_loop_exit)
  moreover have "while_loop ?c ?b ?v maxls unroll True = (x_next, step_size)"
    using assms by (simp add: make_linesearch_def Let_def)
  ultimately have "?k = maxls \<or> \<not> ?c (x_next, step_size)"
    by simp
  then show ?thesis
    by (auto simp: linesearch_cond_fun_iff not_fgt_iff sufficient_decrease_def)
qed

text \<open>
  The instance: on the quadratic at \<open>x = 0\<close> with trial step size 1 the first candidate,
  \<open>x = 3\<close>, is accepted and satisfies the inequality.
\<close>

theorem linesearch_acceptance_witness:
  "make_linesearch quad_objective () (make_prox_grad prox_none ()) 15 (Fin (1/2)) False eps32
     (pt 0) (Fin (9/2)) (pt (- 3)) (Fin 1) = ((pt 3), Fin 1)
   \<and> sufficient_decrease quad_objective () eps32 (pt 0) (Fin (9/2)) (pt (- 3))
         (pt 3) (Fin 1)"
proof -
  have no_nan:
    "fun_decrease_of quad_objective () (Fin (9/2)) (pt 3) (Fin 1) \<noteq> NaN"
    "decrease_bound eps32 (pt 0) (pt (- 3)) (pt 3) (Fin 1) \<noteq> NaN"
    by (simp_all add: fun_decrease_of_def decrease_bound_def ls_eval quad_objective_def)
  have attempts:
    "ls_attempts quad_objective () (make_prox_grad prox_none ()) 15 (Fin (1/2)) eps32
       (pt 0) (Fin (9/2)) (pt (- 3)) (Fin 1) \<noteq> 15"
    unfolding ls_attempts_def
    by (subst while_loop_iters_stop) (simp_all add: ls_eval quad_objective_def)
  show ?thesis
    using linesearch_acceptance [OF quad_linesearch] no_nan attempts quad_linesearch by simp
qed

text \<open>
  The claim as the spec states it fails where the objective is NaN at the candidate:
  for \<open>f(x) = sqrt(x)\<close> at \<open>x = 1\<close> (\<open>f_x = 1\<close>, \<open>grad_x = 1/2\<close>) and trial step size 4 the
  candidate is \<open>x = -1\<close>, where \<open>f\<close> is NaN; the search returns it at once, with no
  shrink attempt out of 15, and the inequality does not hold for it.
\<close>

theorem linesearch_acceptance_counterexample:
  "flt (Fin 0) (Fin 4)
   \<and> make_linesearch sqrt_objective () (make_prox_grad prox_none ()) 15 (Fin (1/2)) False eps32
       (pt 1) (Fin 1) (pt (1/2)) (Fin 4) = ((pt (- 1)), Fin 4)
   \<and> \<not> (sufficient_decrease sqrt_objective () eps32 (pt 1) (Fin 1) (pt (1/2))
           (pt (- 1)) (Fin 4)
         \<or> ls_attempts sqrt_objective () (make_prox_grad prox_none ()) 15 (Fin (1/2)) eps32
             (pt 1) (Fin 1) (pt (1/2)) (Fin 4) = 15)"
  by (simp add: sqrt_linesearch sqrt_ls_attempts sufficient_decrease_def fun_decrease_of_def
      decrease_bound_def sqrt_objective_def fsub_def)

section \<open>The iteration body\<close>

lemmas pg_sel = pg_iter_num_def pg_x_def pg_stepsize_def pg_error_def
lemmas apg_sel = apg_iter_num_def apg_x_def apg_y_def apg_t_def apg_stepsize_def apg_error_def

lemma prox_grad_is_prox_step:
  "make_prox_grad prox params_prox x grad_x step_size = prox_step prox params_prox x grad_x step_size"
  by (simp add: make_prox_grad_def prox_step_def tree_add_scalar_mul_def tree_sub_def fsub_def
      fmul_fneg_left Let_def)

lemma error_fun_residual:
  "error_fun (make_prox_grad prox params_prox) x grad_x = fixed_point_residual prox params_prox x grad_x"
  by (simp add: error_fun_def fixed_point_residual_def prox_grad_is_prox_step prox_step_def Let_def
      tree_l2_norm_sub_swap [of x])

lemma body_pg_eq:
  "fst (make_pg_body_fun func grad_fun params_fun prox params_prox stepsize maxls unroll_ls stepfactor eps)
     (iter_num, curr_x, curr_stepsize, err) =
   (let prox_grad = make_prox_grad prox params_prox;
        g = grad_fun curr_x params_fun;
        r = iter stepsize stepfactor
              (make_linesearch func params_fun prox_grad maxls stepfactor unroll_ls eps) prox_grad
              curr_x (func curr_x params_fun) g curr_stepsize
    in (Suc iter_num, fst r, snd r, error_fun prox_grad curr_x g))"
  by (simp add: make_pg_body_fun_def body_fun_proximal_gradient_def value_and_grad_fun_def Let_def
      split: prod.splits)

lemma body_apg_eq:
  "snd (make_pg_body_fun func grad_fun params_fun prox params_prox stepsize maxls unroll_ls stepfactor eps)
     (iter_num, curr_x, curr_y, curr_t, curr_stepsize, err) =
   (let prox_grad = make_prox_grad prox params_prox;
        r = iter stepsize stepfactor
              (make_linesearch func params_fun prox_grad maxls stepfactor unroll_ls eps) prox_grad
              curr_y (func curr_y params_fun) (grad_fun curr_y params_fun) curr_stepsize;
        next_t = momentum_update curr_t
    in (Suc iter_num, fst r, extrapolate curr_x (fst r) curr_t next_t, next_t, snd r,
        error_fun prox_grad (fst r) (grad_fun (fst r) params_fun)))"
  by (simp add: make_pg_body_fun_def body_fun_accelerated_proximal_gradient_def
      value_and_grad_fun_def Let_def momentum_update_def extrapolate_def tree_add_scalar_mul_def
      tree_sub_def split: prod.splits)

text \<open>
  C3. For every point \<open>x\<close> and gradient \<open>grad_x\<close> the stopping-criterion error
  \<open>error_fun\<close> is the L2 norm of \<open>x - prox(x - 1.0 * grad_x, params_prox, 1.0)\<close>, the
  fixed-point residual at unit step size; and the error that an accelerated iteration
  stores is this residual at the new iterate \<open>x_next\<close> with the gradient evaluated at
  \<open>x_next\<close>, not the gradient at the extrapolated point \<open>curr_y\<close> the step was taken from.
\<close>

theorem error_is_fixed_point_residual:
  assumes "snd (make_pg_body_fun func grad_fun params_fun prox params_prox stepsize maxls unroll_ls
                  stepfactor eps) (iter_num, curr_x, curr_y, curr_t, curr_stepsize, err)
             = (iter_num', x_next, y_next, t_next, step_size_next, error_next)"
  shows "error_fun (make_prox_grad prox params_prox) x grad_x
           = fixed_point_residual prox params_prox x grad_x
         \<and> error_next = fixed_point_residual prox params_prox x_next (grad_fun x_next params_fun)"
  using assms by (auto simp add: body_apg_eq Let_def error_fun_residual)

text \<open>
  C4. An accelerated iteration from momentum coefficient \<open>t\<close> and main iterate \<open>x\<close>
  returns \<open>t_next = 0.5 * (1 + sqrt(1 + 4 * t^2))\<close> and
  \<open>y_next = x_next + ((t - 1) / t_next) * (x_next - x)\<close>.
\<close>

theorem momentum_and_extrapolation:
  assumes "snd (make_pg_body_fun func grad_fun params_fun prox params_prox stepsize maxls unroll_ls
                  stepfactor eps) (iter_num, curr_x, curr_y, curr_t, curr_stepsize, err)
             = (iter_num', x_next, y_next, t_next, step_size_next, error_next)"
  shows "t_next = momentum_update curr_t \<and> y_next = extrapolate curr_x x_next curr_t t_next"
  using assms by (auto simp add: body_apg_eq Let_def)


lemma iter_linesearch:
  "fle stepsize (Fin 0) \<Longrightarrow>
   iter stepsize stepfactor linesearch prox_grad x f_x grad_x s =
     (fst (linesearch x f_x grad_x s),
      next_trial_step_size stepfactor (snd (linesearch x f_x grad_x s)))"
  by (simp add: iter_def next_trial_step_size_def Let_def split: prod.splits)

lemma iter_fixed:
  "\<not> fle stepsize (Fin 0) \<Longrightarrow>
   iter stepsize stepfactor linesearch prox_grad x f_x grad_x s =
     (prox_grad x grad_x stepsize, stepsize)"
  by (simp add: iter_def Let_def)

lemma flt_not_fle: "flt a b \<Longrightarrow> \<not> fle b a"
  by (cases a; cases b) auto

text \<open>
  C5. When the configured step size is \<open>\<le> 0\<close>, an iteration of either variant takes its
  new point from the backtracking line search, run from the current trial step size,
  and its next trial step size is 1 if the accepted step size is at or below \<open>1e-6\<close> and
  the accepted step size divided by the shrink factor otherwise.
\<close>

theorem linesearch_step_size_adaptation:
  assumes "fle stepsize (Fin 0)"
  shows "fst (make_pg_body_fun func grad_fun params_fun prox params_prox stepsize maxls unroll_ls
                stepfactor eps) (iter_num, curr_x, curr_stepsize, err) =
           (case make_linesearch func params_fun (make_prox_grad prox params_prox) maxls stepfactor
                   unroll_ls eps curr_x (func curr_x params_fun) (grad_fun curr_x params_fun)
                   curr_stepsize of
              (x_next, accepted) \<Rightarrow>
                (Suc iter_num, x_next, next_trial_step_size stepfactor accepted,
                 error_fun (make_prox_grad prox params_prox) curr_x (grad_fun curr_x params_fun)))
         \<and> snd (make_pg_body_fun func grad_fun params_fun prox params_prox stepsize maxls unroll_ls
                stepfactor eps) (iter_num, curr_x, curr_y, curr_t, curr_stepsize, err) =
           (case make_linesearch func params_fun (make_prox_grad prox params_prox) maxls stepfactor
                   unroll_ls eps curr_y (func curr_y params_fun) (grad_fun curr_y params_fun)
                   curr_stepsize of
              (x_next, accepted) \<Rightarrow>
                (Suc iter_num, x_next, extrapolate curr_x x_next curr_t (momentum_update curr_t),
                 momentum_update curr_t, next_trial_step_size stepfactor accepted,
                 error_fun (make_prox_grad prox params_prox) x_next (grad_fun x_next params_fun)))"
  using assms by (simp add: body_pg_eq body_apg_eq iter_linesearch Let_def split: prod.splits)

lemma body_pg_fixed:
  assumes "flt (Fin 0) stepsize"
  shows "fst (make_pg_body_fun func grad_fun params_fun prox params_prox stepsize maxls unroll_ls
                stepfactor eps) args =
           (Suc (pg_iter_num args),
            prox_step prox params_prox (pg_x args) (grad_fun (pg_x args) params_fun) stepsize,
            stepsize,
            error_fun (make_prox_grad prox params_prox) (pg_x args) (grad_fun (pg_x args) params_fun))"
  using flt_not_fle [OF assms]
  by (cases args) (simp add: body_pg_eq iter_fixed Let_def prox_grad_is_prox_step pg_sel)

lemma body_apg_fixed:
  assumes "flt (Fin 0) stepsize"
  shows "snd (make_pg_body_fun func grad_fun params_fun prox params_prox stepsize maxls unroll_ls
                stepfactor eps) args =
           (let x_next = prox_step prox params_prox (apg_y args) (grad_fun (apg_y args) params_fun)
                           stepsize
            in (Suc (apg_iter_num args), x_next,
                extrapolate (apg_x args) x_next (apg_t args) (momentum_update (apg_t args)),
                momentum_update (apg_t args), stepsize,
                error_fun (make_prox_grad prox params_prox) x_next (grad_fun x_next params_fun)))"
  using flt_not_fle [OF assms]
  by (cases args) (simp add: body_apg_eq iter_fixed Let_def prox_grad_is_prox_step apg_sel)

lemma pg_stepsize_fixed:
  assumes "flt (Fin 0) stepsize" and "0 < k"
  shows "pg_stepsize ((fst (make_pg_body_fun func grad_fun params_fun prox params_prox stepsize
            maxls unroll_ls stepfactor eps) ^^ k) args) = stepsize"
proof -
  from \<open>0 < k\<close> obtain m where "k = Suc m" by (cases k) auto
  then show ?thesis
    by (simp add: body_pg_fixed [OF assms(1)] pg_stepsize_def)
qed

lemma apg_stepsize_fixed:
  assumes "flt (Fin 0) stepsize" and "0 < k"
  shows "apg_stepsize ((snd (make_pg_body_fun func grad_fun params_fun prox params_prox stepsize
            maxls unroll_ls stepfactor eps) ^^ k) args) = stepsize"
proof -
  from \<open>0 < k\<close> obtain m where "k = Suc m" by (cases k) auto
  then show ?thesis
    by (simp add: body_apg_fixed [OF assms(1)] apg_stepsize_def Let_def)
qed

text \<open>
  C6. When a fixed positive step size is configured, an iteration computes its new point
  as \<open>prox(x - stepsize * grad f(x), params_prox, stepsize)\<close> (at \<open>curr_y\<close> in the
  accelerated variant); the step does not depend on the line search it is given, so the
  search is not consulted; and the step-size component of every state after one or more
  iterations is the configured step size.
\<close>

theorem fixed_step_size_iteration:
  assumes "flt (Fin 0) stepsize"
  shows "fst (make_pg_body_fun func grad_fun params_fun prox params_prox stepsize maxls unroll_ls
                stepfactor eps) (iter_num, curr_x, curr_stepsize, err) =
           (Suc iter_num,
            prox_step prox params_prox curr_x (grad_fun curr_x params_fun) stepsize,
            stepsize,
            error_fun (make_prox_grad prox params_prox) curr_x (grad_fun curr_x params_fun))
         \<and> apg_x (snd (make_pg_body_fun func grad_fun params_fun prox params_prox stepsize maxls
                unroll_ls stepfactor eps) (iter_num, curr_x, curr_y, curr_t, curr_stepsize, err)) =
             prox_step prox params_prox curr_y (grad_fun curr_y params_fun) stepsize
         \<and> (\<forall>linesearch prox_grad x f_x grad_x s.
               iter stepsize stepfactor linesearch prox_grad x f_x grad_x s =
                 (prox_grad x grad_x stepsize, stepsize))
         \<and> (\<forall>k args. 0 < k \<longrightarrow>
               pg_stepsize ((fst (make_pg_body_fun func grad_fun params_fun prox params_prox
                  stepsize maxls unroll_ls stepfactor eps) ^^ k) args) = stepsize)
         \<and> (\<forall>k args. 0 < k \<longrightarrow>
               apg_stepsize ((snd (make_pg_body_fun func grad_fun params_fun prox params_prox
                  stepsize maxls unroll_ls stepfactor eps) ^^ k) args) = stepsize)"
proof -
  have "\<not> fle stepsize (Fin 0)"
    using assms by (rule flt_not_fle)
  then have a: "\<forall>linesearch prox_grad x f_x grad_x s.
      iter stepsize stepfactor linesearch prox_grad x f_x grad_x s =
        (prox_grad x grad_x stepsize, stepsize)"
    by (simp add: iter_fixed)
  have b: "fst (make_pg_body_fun func grad_fun params_fun prox params_prox stepsize maxls unroll_ls
                stepfactor eps) (iter_num, curr_x, curr_stepsize, err) =
           (Suc iter_num,
            prox_step prox params_prox curr_x (grad_fun curr_x params_fun) stepsize,
            stepsize,
            error_fun (make_prox_grad prox params_prox) curr_x (grad_fun curr_x params_fun))"
    by (simp add: body_pg_fixed [OF assms] pg_sel)
  have c: "apg_x (snd (make_pg_body_fun func grad_fun params_fun prox params_prox stepsize maxls
                unroll_ls stepfactor eps) (iter_num, curr_x, curr_y, curr_t, curr_stepsize, err)) =
             prox_step prox params_prox curr_y (grad_fun curr_y params_fun) stepsize"
    by (simp add: body_apg_fixed [OF assms] apg_sel Let_def)
  have d: "\<forall>k args. 0 < k \<longrightarrow>
      pg_stepsize ((fst (make_pg_body_fun func grad_fun params_fun prox params_prox
        stepsize maxls unroll_ls stepfactor eps) ^^ k) args) = stepsize"
    by (simp add: pg_stepsize_fixed [OF assms])
  have e: "\<forall>k args. 0 < k \<longrightarrow>
      apg_stepsize ((snd (make_pg_body_fun func grad_fun params_fun prox params_prox
        stepsize maxls unroll_ls stepfactor eps) ^^ k) args) = stepsize"
    by (simp add: apg_stepsize_fixed [OF assms])
  from b c a d e show ?thesis
    by - (intro conjI; assumption)
qed


lemma tree_l2_norm_unit_Fin: "tree_l2_norm (\<lambda>i::unit. Fin a) False = Fin \<bar>a\<bar>"
  by (simp add: tree_l2_norm_def enum_unit_def)

lemma tree_l2_norm_unit_NaN: "tree_l2_norm (\<lambda>i::unit. NaN) False = NaN"
  by (simp add: tree_l2_norm_def enum_unit_def)

lemma momentum_update_one: "momentum_update (Fin 1) = Fin ((1 + sqrt 5) / 2)"
  by (simp add: momentum_update_def)

lemma golden_pos: "(1 + sqrt 5) / 2 \<noteq> (0::real)"
proof -
  have "0 < 1 + sqrt 5" by (simp add: add_pos_nonneg)
  then show ?thesis by simp
qed

lemmas body_eval =
  body_pg_eq body_apg_eq iter_def error_fun_def make_prox_grad_def
  tree_sub_def tree_add_scalar_mul_def fsub_def Let_def prox_none_def
  tree_l2_norm_unit_Fin tree_l2_norm_unit_NaN extrapolate_def

lemma quad_body_apg_ls:
  "snd (make_pg_body_fun quad_objective quad_gradient () prox_none () (Fin 0) 15 False
          (Fin (1/2)) eps32) (0, (pt 0), (pt 0), Fin 1, Fin 1, PInf)
     = (1, (pt 3), (pt 3), Fin ((1 + sqrt 5) / 2), Fin 2, Fin 0)"
proof -
  have "make_linesearch quad_objective () (make_prox_grad prox_none ()) 15 (Fin (1/2)) False eps32
     (pt 0) (quad_objective (pt 0) ()) (quad_gradient (pt 0) ()) (Fin 1)
       = ((pt 3), Fin 1)"
    using quad_linesearch by (simp add: quad_objective_def quad_gradient_def fsub_def)
  then show ?thesis
    using golden_pos
    by (simp add: body_apg_eq iter_def Let_def momentum_update_one)
      (simp add: body_eval quad_gradient_def)
qed

lemma quad_body_pg_fixed:
  "fst (make_pg_body_fun quad_objective quad_gradient () prox_none () (Fin (1/2)) 15 False
          (Fin (1/2)) eps32) (0, (pt 0), Fin 1, PInf)
     = (1, (pt (3/2)), Fin (1/2), Fin 3)"
  by (simp add: body_eval quad_gradient_def)


text \<open>
  The instance: the first accelerated iteration on the quadratic from \<open>x = 0\<close>, with line
  search. The residual at \<open>0\<close> is 3; the iteration moves to \<open>x = 3\<close>, the minimiser, and
  stores the residual at 3, which is 0.
\<close>

theorem error_is_fixed_point_residual_witness:
  "snd (make_pg_body_fun quad_objective quad_gradient () prox_none () (Fin 0) 15 False
          (Fin (1/2)) eps32) (0, pt 0, pt 0, Fin 1, Fin 1, PInf)
     = (1, pt 3, pt 3, Fin ((1 + sqrt 5) / 2), Fin 2, Fin 0)
   \<and> error_fun (make_prox_grad prox_none ()) (pt 0) (pt (- 3))
       = fixed_point_residual prox_none () (pt 0) (pt (- 3))
   \<and> fixed_point_residual prox_none () (pt 0) (pt (- 3)) = Fin 3
   \<and> fixed_point_residual prox_none () (pt 3) (quad_gradient (pt 3) ()) = Fin 0"
proof -
  have r: "fixed_point_residual prox_none () (pt 0) (pt (- 3)) = Fin 3"
    by (simp add: fixed_point_residual_def prox_none_def tree_sub_def fsub_def
        tree_l2_norm_unit_Fin)
  note t = error_is_fixed_point_residual [OF quad_body_apg_ls, of "pt 0" "pt (- 3)"]
  from quad_body_apg_ls t [THEN conjunct1] r t [THEN conjunct2, symmetric] show ?thesis
    by - (intro conjI; assumption)
qed

text \<open>
  The instance: the first accelerated iteration on the quadratic, where \<open>t = 1\<close> gives
  \<open>t_next = (1 + sqrt 5) / 2\<close> and \<open>y_next = x_next\<close>.
\<close>

theorem momentum_and_extrapolation_witness:
  "snd (make_pg_body_fun quad_objective quad_gradient () prox_none () (Fin 0) 15 False
          (Fin (1/2)) eps32) (0, pt 0, pt 0, Fin 1, Fin 1, PInf)
     = (1, pt 3, pt 3, Fin ((1 + sqrt 5) / 2), Fin 2, Fin 0)
   \<and> Fin ((1 + sqrt 5) / 2) = momentum_update (Fin 1)
   \<and> pt 3 = extrapolate (pt 0) (pt 3) (Fin 1) (Fin ((1 + sqrt 5) / 2))"
  using momentum_and_extrapolation [OF quad_body_apg_ls] quad_body_apg_ls
  by - (intro conjI; (elim conjE)?; assumption)

text \<open>
  The instance: the first plain iteration on the quadratic with \<open>stepsize = 0\<close>; the line
  search accepts step size 1, and the next trial step size is \<open>1 / 0.5 = 2\<close>.
\<close>

theorem linesearch_step_size_adaptation_witness:
  "fle (Fin 0) (Fin 0)
   \<and> fst (make_pg_body_fun quad_objective quad_gradient () prox_none () (Fin 0) 15 False
          (Fin (1/2)) eps32) (0, (pt 0), Fin 1, PInf)
       = (case make_linesearch quad_objective () (make_prox_grad prox_none ()) 15 (Fin (1/2))
                 False eps32 (pt 0) (Fin (9/2)) (pt (- 3)) (Fin 1) of
            (x_next, accepted) \<Rightarrow>
              (1, x_next, next_trial_step_size (Fin (1/2)) accepted, Fin 3))
   \<and> make_linesearch quad_objective () (make_prox_grad prox_none ()) 15 (Fin (1/2))
                 False eps32 (pt 0) (Fin (9/2)) (pt (- 3)) (Fin 1)
       = ((pt 3), Fin 1)
   \<and> next_trial_step_size (Fin (1/2)) (Fin 1) = Fin 2
   \<and> next_trial_step_size (Fin (1/2)) (Fin (1/1000000)) = Fin 1"
proof -
  have h: "fle (Fin 0) (Fin 0)" by simp
  have v: "quad_objective (pt 0) () = Fin (9/2)" "quad_gradient (pt 0) () = (pt (- 3))"
    by (simp_all add: quad_objective_def quad_gradient_def fsub_def)
  have e: "error_fun (make_prox_grad prox_none ()) (pt 0) (pt (- 3)) = Fin 3"
    by (simp add: body_eval)
  show ?thesis
    using linesearch_step_size_adaptation [OF h, where func = quad_objective
        and grad_fun = quad_gradient and params_fun = "()" and prox = prox_none
        and params_prox = "()" and maxls = 15 and unroll_ls = False and stepfactor = "Fin (1/2)"
        and eps = eps32 and iter_num = 0 and curr_x = "\<lambda>i. Fin 0" and curr_stepsize = "Fin 1"
        and err = PInf]
    by (simp add: v e quad_linesearch next_trial_step_size_def)
qed

lemma quad_body_pg_fixed2:
  "(fst (make_pg_body_fun quad_objective quad_gradient () prox_none () (Fin (1/2)) 15 False
          (Fin (1/2)) eps32) ^^ 2) (init_args (pt 0))
     = (2, (pt (9/4)), Fin (1/2), Fin (3/2))"
  by (simp add: numeral_2_eq_2 init_args_def quad_body_pg_fixed)
    (simp add: body_eval quad_gradient_def)

text \<open>
  The instance: the spec's scenario, the quadratic from \<open>x = 0\<close> with \<open>stepsize = 0.5\<close>
  and no acceleration; the first point is 1.5, and the step size stays 0.5.
\<close>

theorem fixed_step_size_iteration_witness:
  "flt (Fin 0) (Fin (1/2))
   \<and> fst (make_pg_body_fun quad_objective quad_gradient () prox_none () (Fin (1/2)) 15 False
          (Fin (1/2)) eps32) (0, (pt 0), Fin 1, PInf)
       = (1, prox_step prox_none () (pt 0) (pt (- 3)) (Fin (1/2)), Fin (1/2), Fin 3)
   \<and> prox_step prox_none () (pt 0) (pt (- 3)) (Fin (1/2)) = (pt (3/2))
   \<and> pg_stepsize ((fst (make_pg_body_fun quad_objective quad_gradient () prox_none ()
          (Fin (1/2)) 15 False (Fin (1/2)) eps32) ^^ 2) (init_args (pt 0))) = Fin (1/2)"
proof -
  have h: "flt (Fin 0) (Fin (1/2))" by simp
  have p: "prox_step prox_none () (pt 0) (pt (- 3)) (Fin (1/2)) = (pt (3/2))"
    by (simp add: prox_step_def prox_none_def tree_sub_def fsub_def)
  show ?thesis
    using fixed_step_size_iteration [OF h, where func = quad_objective
        and grad_fun = quad_gradient and params_fun = "()" and prox = prox_none
        and params_prox = "()" and maxls = 15 and unroll_ls = False and stepfactor = "Fin (1/2)"
        and eps = eps32 and iter_num = 0 and curr_x = "\<lambda>i. Fin 0" and curr_stepsize = "Fin 1"
        and err = PInf and curr_y = "\<lambda>i. Fin 0" and curr_t = "Fin 1"]
    by (simp add: p quad_body_pg_fixed quad_body_pg_fixed2 pg_stepsize_def)
qed

section \<open>The outer loop\<close>

lemma body_pg_iter_num:
  "pg_iter_num (fst (make_pg_body_fun func grad_fun params_fun prox params_prox stepsize maxls
      unroll_ls stepfactor eps) args) = Suc (pg_iter_num args)"
  by (cases args) (simp add: body_pg_eq Let_def pg_iter_num_def)

lemma body_apg_iter_num:
  "apg_iter_num (snd (make_pg_body_fun func grad_fun params_fun prox params_prox stepsize maxls
      unroll_ls stepfactor eps) args) = Suc (apg_iter_num args)"
  by (cases args) (simp add: body_apg_eq Let_def apg_iter_num_def)

lemma pg_iter_num_funpow:
  "pg_iter_num ((fst (make_pg_body_fun func grad_fun params_fun prox params_prox stepsize maxls
      unroll_ls stepfactor eps) ^^ k) args) = pg_iter_num args + k"
  by (induction k) (simp_all add: body_pg_iter_num)

lemma apg_iter_num_funpow:
  "apg_iter_num ((snd (make_pg_body_fun func grad_fun params_fun prox params_prox stepsize maxls
      unroll_ls stepfactor eps) ^^ k) args) = apg_iter_num args + k"
  by (induction k) (simp_all add: body_apg_iter_num)

lemma body_pg_error:
  "pg_error (fst (make_pg_body_fun func grad_fun params_fun prox params_prox stepsize maxls
      unroll_ls stepfactor eps) args) =
     fixed_point_residual prox params_prox (pg_x args) (grad_fun (pg_x args) params_fun)"
  by (cases args) (simp add: body_pg_eq Let_def pg_sel error_fun_residual)

lemma body_apg_error:
  "apg_error (snd (make_pg_body_fun func grad_fun params_fun prox params_prox stepsize maxls
      unroll_ls stepfactor eps) args) =
     fixed_point_residual prox params_prox
       (apg_x (snd (make_pg_body_fun func grad_fun params_fun prox params_prox stepsize maxls
          unroll_ls stepfactor eps) args))
       (grad_fun (apg_x (snd (make_pg_body_fun func grad_fun params_fun prox params_prox stepsize
          maxls unroll_ls stepfactor eps) args)) params_fun)"
  by (cases args) (simp add: body_apg_eq Let_def apg_sel error_fun_residual)

lemma proximal_gradient_plain:
  "proximal_gradient func grad_fun init params_fun prox params_prox stepsize maxiter maxls tol
       False verbose implicit_diff ret_info eps =
     (let s = (fst (make_pg_body_fun func grad_fun params_fun prox params_prox stepsize maxls
                 (\<not> implicit_diff) (Fin (1/2)) eps)
               ^^ outer_iters func grad_fun init params_fun prox params_prox stepsize maxiter
                    maxls tol False implicit_diff eps) (init_args init)
      in if ret_info then Info (OptimizeResults (pg_x s) (pg_iter_num s) (pg_error s))
         else Solution (pg_x s))"
  by (simp add: proximal_gradient_def outer_iters_def Let_def while_loop_funpow pg_sel
      split: prod.splits)

lemma proximal_gradient_accelerated:
  "proximal_gradient func grad_fun init params_fun prox params_prox stepsize maxiter maxls tol
       True verbose implicit_diff ret_info eps =
     (let s = (snd (make_pg_body_fun func grad_fun params_fun prox params_prox stepsize maxls
                 (\<not> implicit_diff) (Fin (1/2)) eps)
               ^^ outer_iters func grad_fun init params_fun prox params_prox stepsize maxiter
                    maxls tol True implicit_diff eps) (init_args_accelerated init)
      in if ret_info then Info (OptimizeResults (apg_x s) (apg_iter_num s) (apg_error s))
         else Solution (apg_x s))"
  by (simp add: proximal_gradient_def outer_iters_def Let_def while_loop_funpow apg_sel
      split: prod.splits)

lemma outer_iters_le:
  "outer_iters func grad_fun init params_fun prox params_prox stepsize maxiter maxls tol
     acceleration implicit_diff eps \<le> maxiter"
  by (simp add: outer_iters_def Let_def while_loop_iters_le)

lemma cond_fun_iff: "cond_fun tol args \<longleftrightarrow> fgt (pg_error args) tol"
  by (cases args) (simp add: cond_fun_def pg_error_def)

lemma cond_fun_accelerated_iff: "cond_fun_accelerated tol args \<longleftrightarrow> fgt (apg_error args) tol"
  by (cases args) (simp add: cond_fun_accelerated_def apg_error_def)

lemma outer_exit_plain:
  "outer_iters func grad_fun init params_fun prox params_prox stepsize maxiter maxls tol
     False implicit_diff eps = maxiter
   \<or> \<not> fgt (pg_error ((fst (make_pg_body_fun func grad_fun params_fun prox params_prox stepsize
               maxls (\<not> implicit_diff) (Fin (1/2)) eps)
             ^^ outer_iters func grad_fun init params_fun prox params_prox stepsize maxiter
                  maxls tol False implicit_diff eps) (init_args init))) tol"
  using while_loop_exit [of "cond_fun tol"
      "fst (make_pg_body_fun func grad_fun params_fun prox params_prox stepsize
               maxls (\<not> implicit_diff) (Fin (1/2)) eps)" "init_args init" maxiter True True]
  by (simp add: outer_iters_def Let_def while_loop_funpow cond_fun_iff)

lemma outer_exit_accelerated:
  "outer_iters func grad_fun init params_fun prox params_prox stepsize maxiter maxls tol
     True implicit_diff eps = maxiter
   \<or> \<not> fgt (apg_error ((snd (make_pg_body_fun func grad_fun params_fun prox params_prox stepsize
               maxls (\<not> implicit_diff) (Fin (1/2)) eps)
             ^^ outer_iters func grad_fun init params_fun prox params_prox stepsize maxiter
                  maxls tol True implicit_diff eps) (init_args_accelerated init))) tol"
  using while_loop_exit [of "cond_fun_accelerated tol"
      "snd (make_pg_body_fun func grad_fun params_fun prox params_prox stepsize
               maxls (\<not> implicit_diff) (Fin (1/2)) eps)" "init_args_accelerated init" maxiter True True]
  by (simp add: outer_iters_def Let_def while_loop_funpow cond_fun_accelerated_iff)

lemma not_fgt_pos: "flt (Fin 0) tol \<Longrightarrow> \<not> fgt e tol \<Longrightarrow> fle e tol \<or> e = NaN"
  by (cases e; cases tol) (auto simp: fgt_def)

text \<open>
  C2 (as amended). For every tolerance \<open>tol > 0\<close> and every \<open>maxiter\<close> the outer loop
  performs at most \<open>maxiter\<close> iterations, the reported iteration count is the number of
  iterations performed, and at exit the error is \<open>\<le> tol\<close>, or the error is NaN, or the
  iteration count equals \<open>maxiter\<close>. Reaching the cap is no error: the solver returns the
  final point (with \<open>ret_info\<close>, together with the count and the error).
\<close>

theorem outer_loop_exit:
  assumes "flt (Fin 0) tol"
  shows "\<exists>x nit error.
           proximal_gradient func grad_fun init params_fun prox params_prox stepsize maxiter maxls
             tol acceleration verbose implicit_diff True eps = Info (OptimizeResults x nit error)
         \<and> proximal_gradient func grad_fun init params_fun prox params_prox stepsize maxiter maxls
             tol acceleration verbose implicit_diff False eps = Solution x
         \<and> nit = outer_iters func grad_fun init params_fun prox params_prox stepsize maxiter
                   maxls tol acceleration implicit_diff eps
         \<and> nit \<le> maxiter
         \<and> (fle error tol \<or> error = NaN \<or> nit = maxiter)"
proof (cases acceleration)
  case True
  let ?k = "outer_iters func grad_fun init params_fun prox params_prox stepsize maxiter
              maxls tol True implicit_diff eps"
  let ?s = "(snd (make_pg_body_fun func grad_fun params_fun prox params_prox stepsize maxls
               (\<not> implicit_diff) (Fin (1/2)) eps) ^^ ?k) (init_args_accelerated init)"
  have n: "apg_iter_num ?s = ?k"
    unfolding apg_iter_num_funpow by (simp add: init_args_accelerated_def apg_iter_num_def)
  have "?k = maxiter \<or> \<not> fgt (apg_error ?s) tol"
    by (rule outer_exit_accelerated)
  then have e: "fle (apg_error ?s) tol \<or> apg_error ?s = NaN \<or> ?k = maxiter"
    using not_fgt_pos [OF assms] by blast
  show ?thesis
    using True n e outer_iters_le [of func grad_fun init params_fun prox params_prox stepsize
        maxiter maxls tol True implicit_diff eps]
    by (simp add: proximal_gradient_accelerated Let_def)
next
  case False
  let ?k = "outer_iters func grad_fun init params_fun prox params_prox stepsize maxiter
              maxls tol False implicit_diff eps"
  let ?s = "(fst (make_pg_body_fun func grad_fun params_fun prox params_prox stepsize maxls
               (\<not> implicit_diff) (Fin (1/2)) eps) ^^ ?k) (init_args init)"
  have n: "pg_iter_num ?s = ?k"
    unfolding pg_iter_num_funpow by (simp add: init_args_def pg_iter_num_def)
  have "?k = maxiter \<or> \<not> fgt (pg_error ?s) tol"
    by (rule outer_exit_plain)
  then have e: "fle (pg_error ?s) tol \<or> pg_error ?s = NaN \<or> ?k = maxiter"
    using not_fgt_pos [OF assms] by blast
  show ?thesis
    using False n e outer_iters_le [of func grad_fun init params_fun prox params_prox stepsize
        maxiter maxls tol False implicit_diff eps]
    by (simp add: proximal_gradient_plain Let_def)
qed


lemma quad_pg_step:
  "fst (make_pg_body_fun quad_objective quad_gradient () prox_none () (Fin (1/2)) maxls unroll_ls
          stepfactor eps) (n, pt a, s, e)
     = (Suc n, pt ((a + 3) / 2), Fin (1/2), Fin \<bar>a - 3\<bar>)"
  by (simp add: body_eval quad_gradient_def abs_minus_commute) (simp add: field_simps)

lemmas loop_eval =
  while_loop_step while_loop_stop while_loop_iters_step while_loop_iters_stop
  cond_fun_def cond_fun_accelerated_def fgt_def init_args_def init_args_accelerated_def

lemma quad_solve:
  "proximal_gradient quad_objective quad_gradient (pt 0) () prox_none () (Fin (1/2)) 500 15
     (Fin 1) False False True ret_info eps32
     = (if ret_info then Info (OptimizeResults (pt (21/8)) 3 (Fin (3/4))) else Solution (pt (21/8)))"
  by (simp add: proximal_gradient_def Let_def loop_eval quad_pg_step)

lemma quad_solve_capped:
  "proximal_gradient quad_objective quad_gradient (pt 0) () prox_none () (Fin (1/2)) 2 15
     (Fin 1) False False True ret_info eps32
     = (if ret_info then Info (OptimizeResults (pt (9/4)) 2 (Fin (3/2))) else Solution (pt (9/4)))"
  by (simp add: proximal_gradient_def Let_def loop_eval quad_pg_step)

lemma sqrt_pg_step1:
  "fst (make_pg_body_fun sqrt_objective sqrt_gradient () prox_none () (Fin 4) 15 False
          (Fin (1/2)) eps32) (0, pt 1, Fin 1, PInf)
     = (1, pt (- 1), Fin 4, Fin (1/2))"
  by (simp add: body_eval sqrt_gradient_def)

lemma sqrt_pg_step2:
  "fst (make_pg_body_fun sqrt_objective sqrt_gradient () prox_none () (Fin 4) 15 False
          (Fin (1/2)) eps32) (Suc 0, pt (- 1), Fin 4, Fin (1/2))
     = (2, (\<lambda>i. NaN), Fin 4, NaN)"
  by (simp add: body_eval sqrt_gradient_def)

lemma sqrt_solve:
  "proximal_gradient sqrt_objective sqrt_gradient (pt 1) () prox_none () (Fin 4) 500 15
     (Fin (1/1000)) False False True True eps32
     = Info (OptimizeResults (\<lambda>i. NaN) 2 NaN)"
  by (simp add: proximal_gradient_def Let_def loop_eval sqrt_pg_step1 sqrt_pg_step2)

text \<open>
  The instance: the quadratic from \<open>x = 0\<close> with fixed step size 0.5, no acceleration and
  \<open>tol = 1\<close> stops after 3 of 500 iterations with error 0.75; capped at 2 iterations it
  returns the second iterate with error 1.5, above the tolerance.
\<close>

theorem outer_loop_exit_witness:
  "flt (Fin 0) (Fin 1)
   \<and> proximal_gradient quad_objective quad_gradient (pt 0) () prox_none () (Fin (1/2)) 500 15
       (Fin 1) False False True True eps32 = Info (OptimizeResults (pt (21/8)) 3 (Fin (3/4)))
   \<and> proximal_gradient quad_objective quad_gradient (pt 0) () prox_none () (Fin (1/2)) 500 15
       (Fin 1) False False True False eps32 = Solution (pt (21/8))
   \<and> outer_iters quad_objective quad_gradient (pt 0) () prox_none () (Fin (1/2)) 500 15
       (Fin 1) False True eps32 = 3
   \<and> (3::nat) \<le> 500
   \<and> fle (Fin (3/4)) (Fin 1)
   \<and> proximal_gradient quad_objective quad_gradient (pt 0) () prox_none () (Fin (1/2)) 2 15
       (Fin 1) False False True True eps32 = Info (OptimizeResults (pt (9/4)) 2 (Fin (3/2)))"
proof -
  have h: "flt (Fin 0) (Fin 1)" by simp
  from outer_loop_exit [OF h, of quad_objective quad_gradient "pt 0" "()" prox_none "()"
      "Fin (1/2)" 500 15 False False True eps32]
  obtain x nit error where
    r: "proximal_gradient quad_objective quad_gradient (pt 0) () prox_none () (Fin (1/2)) 500 15
          (Fin 1) False False True True eps32 = Info (OptimizeResults x nit error)"
    and s: "proximal_gradient quad_objective quad_gradient (pt 0) () prox_none () (Fin (1/2)) 500
          15 (Fin 1) False False True False eps32 = Solution x"
    and n: "nit = outer_iters quad_objective quad_gradient (pt 0) () prox_none () (Fin (1/2)) 500
          15 (Fin 1) False True eps32"
    and le: "nit \<le> 500"
    and e: "fle error (Fin 1) \<or> error = NaN \<or> nit = 500"
    by blast
  from r have v: "x = pt (21/8)" "nit = 3" "error = Fin (3/4)"
    by (simp_all add: quad_solve)
  from h r s n le e show ?thesis
    unfolding v by (simp add: quad_solve_capped)
qed

text \<open>
  The claim as the spec states it fails when the error becomes NaN: for \<open>f(x) = sqrt(x)\<close>
  from \<open>x = 1\<close> with fixed step size 4 the first iterate is \<open>-1\<close>, where the gradient is
  NaN; the second iteration stores the error NaN, \<^verbatim>\<open>error > tol\<close> is false, and the loop
  stops after 2 of 500 iterations with an error that is not \<open>\<le> tol\<close>.
\<close>

theorem outer_loop_exit_counterexample:
  "flt (Fin 0) (Fin (1/1000))
   \<and> proximal_gradient sqrt_objective sqrt_gradient (pt 1) () prox_none () (Fin 4) 500 15
       (Fin (1/1000)) False False True True eps32 = Info (OptimizeResults (\<lambda>i. NaN) 2 NaN)
   \<and> \<not> (fle NaN (Fin (1/1000)) \<or> (2::nat) = 500)"
  by (simp add: sqrt_solve)

text \<open>
  C10. The loop condition \<^verbatim>\<open>error > tol\<close> holds for the initial state of either variant
  for every finite \<open>tol\<close>, because its error is \<open>+inf\<close>. So for every initial point the
  solver returns the state reached by \<open>nit\<close> applications of the iteration body to the
  initial state, where the reported count \<open>nit\<close> is the number of iterations performed and
  is 0 only if \<open>maxiter = 0\<close>: with \<open>maxiter \<ge> 1\<close> at least one full iteration body is
  executed. With \<open>maxiter = 0\<close> it returns the initial point with count 0 and error
  \<open>+inf\<close>.
\<close>

theorem first_iteration_always_runs:
  "cond_fun (Fin r) (init_args init)
   \<and> cond_fun_accelerated (Fin r) (init_args_accelerated init)
   \<and> (\<exists>x nit error.
         proximal_gradient func grad_fun init params_fun prox params_prox stepsize maxiter maxls
           (Fin r) acceleration verbose implicit_diff True eps = Info (OptimizeResults x nit error)
       \<and> proximal_gradient func grad_fun init params_fun prox params_prox stepsize maxiter maxls
           (Fin r) acceleration verbose implicit_diff False eps = Solution x
       \<and> nit = outer_iters func grad_fun init params_fun prox params_prox stepsize maxiter
                 maxls (Fin r) acceleration implicit_diff eps
       \<and> (nit = 0 \<longleftrightarrow> maxiter = 0)
       \<and> (if acceleration
           then x = apg_x ((snd (make_pg_body_fun func grad_fun params_fun prox params_prox
                      stepsize maxls (\<not> implicit_diff) (Fin (1/2)) eps) ^^ nit)
                     (init_args_accelerated init))
              \<and> nit = apg_iter_num ((snd (make_pg_body_fun func grad_fun params_fun prox
                      params_prox stepsize maxls (\<not> implicit_diff) (Fin (1/2)) eps) ^^ nit)
                     (init_args_accelerated init))
              \<and> error = apg_error ((snd (make_pg_body_fun func grad_fun params_fun prox
                      params_prox stepsize maxls (\<not> implicit_diff) (Fin (1/2)) eps) ^^ nit)
                     (init_args_accelerated init))
           else x = pg_x ((fst (make_pg_body_fun func grad_fun params_fun prox params_prox
                      stepsize maxls (\<not> implicit_diff) (Fin (1/2)) eps) ^^ nit)
                     (init_args init))
              \<and> nit = pg_iter_num ((fst (make_pg_body_fun func grad_fun params_fun prox
                      params_prox stepsize maxls (\<not> implicit_diff) (Fin (1/2)) eps) ^^ nit)
                     (init_args init))
              \<and> error = pg_error ((fst (make_pg_body_fun func grad_fun params_fun prox
                      params_prox stepsize maxls (\<not> implicit_diff) (Fin (1/2)) eps) ^^ nit)
                     (init_args init))))
   \<and> (maxiter = 0 \<longrightarrow>
        proximal_gradient func grad_fun init params_fun prox params_prox stepsize maxiter maxls
          (Fin r) acceleration verbose implicit_diff ret_info eps
        = (if ret_info then Info (OptimizeResults init 0 PInf) else Solution init))"
proof -
  have c: "cond_fun (Fin r) (init_args init)"
    "cond_fun_accelerated (Fin r) (init_args_accelerated init)"
    by (simp_all add: cond_fun_def cond_fun_accelerated_def init_args_def
        init_args_accelerated_def fgt_def)
  have k: "outer_iters func grad_fun init params_fun prox params_prox stepsize maxiter maxls
             (Fin r) acceleration implicit_diff eps = 0 \<longleftrightarrow> maxiter = 0"
    using c by (cases maxiter) (simp_all add: outer_iters_def Let_def)
  have z: "maxiter = 0 \<longrightarrow>
        proximal_gradient func grad_fun init params_fun prox params_prox stepsize maxiter maxls
          (Fin r) acceleration verbose implicit_diff ret_info eps
        = (if ret_info then Info (OptimizeResults init 0 PInf) else Solution init)"
    by (simp add: proximal_gradient_def Let_def init_args_def init_args_accelerated_def)
  have ex: "(\<exists>x nit error.
         proximal_gradient func grad_fun init params_fun prox params_prox stepsize maxiter maxls
           (Fin r) acceleration verbose implicit_diff True eps = Info (OptimizeResults x nit error)
       \<and> proximal_gradient func grad_fun init params_fun prox params_prox stepsize maxiter maxls
           (Fin r) acceleration verbose implicit_diff False eps = Solution x
       \<and> nit = outer_iters func grad_fun init params_fun prox params_prox stepsize maxiter
                 maxls (Fin r) acceleration implicit_diff eps
       \<and> (nit = 0 \<longleftrightarrow> maxiter = 0)
       \<and> (if acceleration
           then x = apg_x ((snd (make_pg_body_fun func grad_fun params_fun prox params_prox
                      stepsize maxls (\<not> implicit_diff) (Fin (1/2)) eps) ^^ nit)
                     (init_args_accelerated init))
              \<and> nit = apg_iter_num ((snd (make_pg_body_fun func grad_fun params_fun prox
                      params_prox stepsize maxls (\<not> implicit_diff) (Fin (1/2)) eps) ^^ nit)
                     (init_args_accelerated init))
              \<and> error = apg_error ((snd (make_pg_body_fun func grad_fun params_fun prox
                      params_prox stepsize maxls (\<not> implicit_diff) (Fin (1/2)) eps) ^^ nit)
                     (init_args_accelerated init))
           else x = pg_x ((fst (make_pg_body_fun func grad_fun params_fun prox params_prox
                      stepsize maxls (\<not> implicit_diff) (Fin (1/2)) eps) ^^ nit)
                     (init_args init))
              \<and> nit = pg_iter_num ((fst (make_pg_body_fun func grad_fun params_fun prox
                      params_prox stepsize maxls (\<not> implicit_diff) (Fin (1/2)) eps) ^^ nit)
                     (init_args init))
              \<and> error = pg_error ((fst (make_pg_body_fun func grad_fun params_fun prox
                      params_prox stepsize maxls (\<not> implicit_diff) (Fin (1/2)) eps) ^^ nit)
                     (init_args init))))"
  proof (cases acceleration)
    case True
    let ?k = "outer_iters func grad_fun init params_fun prox params_prox stepsize maxiter
                maxls (Fin r) True implicit_diff eps"
    let ?s = "(snd (make_pg_body_fun func grad_fun params_fun prox params_prox stepsize maxls
                 (\<not> implicit_diff) (Fin (1/2)) eps) ^^ ?k) (init_args_accelerated init)"
    have n: "apg_iter_num ?s = ?k"
      unfolding apg_iter_num_funpow by (simp add: init_args_accelerated_def apg_iter_num_def)
    show ?thesis
      using True n k by (simp add: proximal_gradient_accelerated Let_def)
  next
    case False
    let ?k = "outer_iters func grad_fun init params_fun prox params_prox stepsize maxiter
                maxls (Fin r) False implicit_diff eps"
    let ?s = "(fst (make_pg_body_fun func grad_fun params_fun prox params_prox stepsize maxls
                 (\<not> implicit_diff) (Fin (1/2)) eps) ^^ ?k) (init_args init)"
    have n: "pg_iter_num ?s = ?k"
      unfolding pg_iter_num_funpow by (simp add: init_args_def pg_iter_num_def)
    show ?thesis
      using False n k by (simp add: proximal_gradient_plain Let_def)
  qed
  from c ex z show ?thesis
    by - (intro conjI; assumption)
qed

lemma quad_solve_at_minimiser:
  "proximal_gradient quad_objective quad_gradient (pt 3) () prox_none () (Fin (1/2)) 500 15
     (Fin (1/1000)) False False True True eps32
     = Info (OptimizeResults (pt 3) 1 (Fin 0))"
  by (simp add: proximal_gradient_def Let_def loop_eval quad_pg_step)

lemma quad_residual_at_minimiser:
  "fixed_point_residual prox_none () (pt 3) (quad_gradient (pt 3) ()) = Fin 0"
  by (simp add: fixed_point_residual_def prox_none_def tree_sub_def fsub_def quad_gradient_def
      tree_l2_norm_unit_Fin)

text \<open>
  The instance: started at the minimiser \<open>x = 3\<close> of the quadratic, an exact fixed point
  (residual 0), the solver still performs one iteration and reports the count 1; with
  \<open>maxiter = 0\<close> it returns the initial state.
\<close>

theorem first_iteration_always_runs_witness:
  "fixed_point_residual prox_none () (pt 3) (quad_gradient (pt 3) ()) = Fin 0
   \<and> proximal_gradient quad_objective quad_gradient (pt 3) () prox_none () (Fin (1/2)) 500 15
       (Fin (1/1000)) False False True True eps32 = Info (OptimizeResults (pt 3) 1 (Fin 0))
   \<and> outer_iters quad_objective quad_gradient (pt 3) () prox_none () (Fin (1/2)) 500 15
       (Fin (1/1000)) False True eps32 = 1
   \<and> proximal_gradient quad_objective quad_gradient (pt 3) () prox_none () (Fin (1/2)) 0 15
       (Fin (1/1000)) False False True True eps32 = Info (OptimizeResults (pt 3) 0 PInf)
   \<and> cond_fun (Fin (1/1000)) (init_args (pt 3))"
proof -
  note t = first_iteration_always_runs [where r = "1/1000" and init = "pt 3"
      and func = quad_objective and grad_fun = quad_gradient and params_fun = "()"
      and prox = prox_none and params_prox = "()" and stepsize = "Fin (1/2)" and maxls = 15
      and acceleration = False and verbose = False and implicit_diff = True and eps = eps32
      and ret_info = True]
  from t [where maxiter = 500, THEN conjunct2, THEN conjunct2, THEN conjunct1]
  obtain x nit error where
    res: "proximal_gradient quad_objective quad_gradient (pt 3) () prox_none () (Fin (1/2)) 500
            15 (Fin (1/1000)) False False True True eps32 = Info (OptimizeResults x nit error)"
    and n: "nit = outer_iters quad_objective quad_gradient (pt 3) () prox_none () (Fin (1/2))
            500 15 (Fin (1/1000)) False True eps32"
    by blast
  from res have "nit = 1"
    by (simp add: quad_solve_at_minimiser)
  with n have k: "outer_iters quad_objective quad_gradient (pt 3) () prox_none () (Fin (1/2))
            500 15 (Fin (1/1000)) False True eps32 = 1"
    by simp
  have z: "proximal_gradient quad_objective quad_gradient (pt 3) () prox_none () (Fin (1/2)) 0 15
       (Fin (1/1000)) False False True True eps32 = Info (OptimizeResults (pt 3) 0 PInf)"
    using t [where maxiter = 0, THEN conjunct2, THEN conjunct2, THEN conjunct2] by simp
  from quad_residual_at_minimiser quad_solve_at_minimiser k z
    t [where maxiter = 500, THEN conjunct1]
  show ?thesis
    by - (intro conjI; assumption)
qed

section \<open>Invariants of the solver state\<close>

lemma square_nonneg_or_nan: "fmul a a = NaN \<or> fle (Fin 0) (fmul a a)"
  by (cases a) simp_all

lemma fadd_nonneg_or_nan:
  "a = NaN \<or> fle (Fin 0) a \<Longrightarrow> b = NaN \<or> fle (Fin 0) b
     \<Longrightarrow> fadd a b = NaN \<or> fle (Fin 0) (fadd a b)"
  by (cases a; cases b) simp_all

lemma fsum_nonneg_or_nan:
  "(\<And>a. a \<in> set as \<Longrightarrow> a = NaN \<or> fle (Fin 0) a) \<Longrightarrow> fsum as = NaN \<or> fle (Fin 0) (fsum as)"
proof (induction as)
  case Nil
  then show ?case by simp
next
  case (Cons a as)
  have "a = NaN \<or> fle (Fin 0) a"
    using Cons.prems by simp
  moreover have "fsum as = NaN \<or> fle (Fin 0) (fsum as)"
    using Cons by simp
  ultimately show ?case
    using fadd_nonneg_or_nan by simp
qed

lemma fsqrt_nonneg_or_nan:
  "a = NaN \<or> fle (Fin 0) a \<Longrightarrow> fsqrt a = NaN \<or> fle (Fin 0) (fsqrt a)"
  by (cases a) auto

lemma tree_l2_norm_nonneg_or_nan:
  "tree_l2_norm x squared = NaN \<or> fle (Fin 0) (tree_l2_norm x squared)"
proof -
  have s: "fsum (map (\<lambda>i. fmul (x i) (x i)) enum_class.enum) = NaN
           \<or> fle (Fin 0) (fsum (map (\<lambda>i. fmul (x i) (x i)) enum_class.enum))"
    by (rule fsum_nonneg_or_nan) (use square_nonneg_or_nan in auto)
  show ?thesis
    using s fsqrt_nonneg_or_nan [OF s] by (simp add: tree_l2_norm_def Let_def)
qed

lemma error_fun_nonneg_or_nan:
  "error_fun prox_grad x g = NaN \<or> fle (Fin 0) (error_fun prox_grad x g)"
  by (simp add: error_fun_def Let_def tree_l2_norm_nonneg_or_nan)

lemma shrunk_pos: "flt (Fin 0) s \<Longrightarrow> flt (Fin 0) (shrunk (Fin (1/2)) k s)"
proof (induction k)
  case 0
  then show ?case by (simp add: shrunk_def)
next
  case (Suc k)
  then have "flt (Fin 0) (shrunk (Fin (1/2)) k s)" by simp
  then have "flt (Fin 0) (fmul (shrunk (Fin (1/2)) k s) (Fin (1/2)))"
    by (cases "shrunk (Fin (1/2)) k s") simp_all
  then show ?case by (simp add: shrunk_def)
qed

lemma next_trial_step_size_pos:
  "flt (Fin 0) a \<Longrightarrow> flt (Fin 0) (next_trial_step_size (Fin (1/2)) a)"
  by (cases a) (simp_all add: next_trial_step_size_def)

lemma iter_stepsize_pos:
  assumes "stepsize \<noteq> NaN" and "flt (Fin 0) s"
  shows "flt (Fin 0) (snd (iter stepsize (Fin (1/2))
           (make_linesearch func params_fun prox_grad maxls (Fin (1/2)) unroll eps) prox_grad
           x f_x grad_x s))"
proof (cases "fle stepsize (Fin 0)")
  case True
  then show ?thesis
    using next_trial_step_size_pos [OF shrunk_pos [OF assms(2)]]
    by (simp add: iter_linesearch make_linesearch_eq Let_def)
next
  case False
  then have "flt (Fin 0) stepsize"
    using assms(1) by (cases stepsize) simp_all
  with False show ?thesis
    by (simp add: iter_fixed)
qed

lemma momentum_update_ge_one:
  assumes "fle (Fin 1) t"
  shows "fle (Fin 1) (momentum_update t)"
proof (cases t)
  case (Fin a)
  with assms have a: "1 \<le> a" by simp
  then have "1 \<le> 1 + 4 * (a * a)"
    by simp
  then have "1 \<le> sqrt (1 + 4 * (a * a))"
    by simp
  moreover have "0 \<le> 1 + 4 * (a * a)"
    using a by simp
  ultimately show ?thesis
    using Fin by (simp add: momentum_update_def not_less)
qed (use assms in \<open>simp_all add: momentum_update_def\<close>)


lemma pg_invariant_step:
  assumes "stepsize \<noteq> NaN" and "flt (Fin 0) (pg_stepsize args)"
  shows "flt (Fin 0) (pg_stepsize (fst (make_pg_body_fun func grad_fun params_fun prox params_prox
           stepsize maxls unroll_ls (Fin (1/2)) eps) args))
       \<and> (pg_error (fst (make_pg_body_fun func grad_fun params_fun prox params_prox
           stepsize maxls unroll_ls (Fin (1/2)) eps) args) = NaN
          \<or> fle (Fin 0) (pg_error (fst (make_pg_body_fun func grad_fun params_fun prox params_prox
           stepsize maxls unroll_ls (Fin (1/2)) eps) args)))"
proof (cases args)
  case (fields iter_num curr_x curr_stepsize err)
  then have "flt (Fin 0) curr_stepsize"
    using assms(2) by (simp add: pg_sel)
  then show ?thesis
    using iter_stepsize_pos [OF assms(1)]
      error_fun_nonneg_or_nan [of "make_prox_grad prox params_prox" curr_x
        "grad_fun curr_x params_fun"]
    by (simp add: fields body_pg_eq Let_def pg_sel)
qed

lemma apg_invariant_step:
  assumes "stepsize \<noteq> NaN" and "flt (Fin 0) (apg_stepsize args)" and "fle (Fin 1) (apg_t args)"
  shows "flt (Fin 0) (apg_stepsize (snd (make_pg_body_fun func grad_fun params_fun prox
           params_prox stepsize maxls unroll_ls (Fin (1/2)) eps) args))
       \<and> (apg_error (snd (make_pg_body_fun func grad_fun params_fun prox params_prox
           stepsize maxls unroll_ls (Fin (1/2)) eps) args) = NaN
          \<or> fle (Fin 0) (apg_error (snd (make_pg_body_fun func grad_fun params_fun prox
           params_prox stepsize maxls unroll_ls (Fin (1/2)) eps) args)))
       \<and> fle (Fin 1) (apg_t (snd (make_pg_body_fun func grad_fun params_fun prox
           params_prox stepsize maxls unroll_ls (Fin (1/2)) eps) args))"
proof (cases args)
  case (fields iter_num curr_x curr_y curr_t curr_stepsize err)
  then have "flt (Fin 0) curr_stepsize" and "fle (Fin 1) curr_t"
    using assms(2,3) by (simp_all add: apg_sel)
  then show ?thesis
    using iter_stepsize_pos [OF assms(1)] momentum_update_ge_one
      error_fun_nonneg_or_nan [of "make_prox_grad prox params_prox"]
    by (simp add: fields body_apg_eq Let_def apg_sel)
qed

lemma pg_invariant_funpow:
  assumes "stepsize \<noteq> NaN"
  shows "flt (Fin 0) (pg_stepsize ((fst (make_pg_body_fun func grad_fun params_fun prox
           params_prox stepsize maxls unroll_ls (Fin (1/2)) eps) ^^ k) (init_args init)))
       \<and> (pg_error ((fst (make_pg_body_fun func grad_fun params_fun prox
           params_prox stepsize maxls unroll_ls (Fin (1/2)) eps) ^^ k) (init_args init)) = NaN
          \<or> fle (Fin 0) (pg_error ((fst (make_pg_body_fun func grad_fun params_fun prox
           params_prox stepsize maxls unroll_ls (Fin (1/2)) eps) ^^ k) (init_args init))))"
proof (induction k)
  case 0
  show ?case by (simp add: init_args_def pg_sel)
next
  case (Suc k)
  from pg_invariant_step [OF assms conjunct1 [OF Suc]] show ?case
    by simp
qed

lemma apg_invariant_funpow:
  assumes "stepsize \<noteq> NaN"
  shows "flt (Fin 0) (apg_stepsize ((snd (make_pg_body_fun func grad_fun params_fun prox
           params_prox stepsize maxls unroll_ls (Fin (1/2)) eps) ^^ k)
           (init_args_accelerated init)))
       \<and> (apg_error ((snd (make_pg_body_fun func grad_fun params_fun prox
           params_prox stepsize maxls unroll_ls (Fin (1/2)) eps) ^^ k)
           (init_args_accelerated init)) = NaN
          \<or> fle (Fin 0) (apg_error ((snd (make_pg_body_fun func grad_fun params_fun prox
           params_prox stepsize maxls unroll_ls (Fin (1/2)) eps) ^^ k)
           (init_args_accelerated init))))
       \<and> fle (Fin 1) (apg_t ((snd (make_pg_body_fun func grad_fun params_fun prox
           params_prox stepsize maxls unroll_ls (Fin (1/2)) eps) ^^ k)
           (init_args_accelerated init)))"
proof (induction k)
  case 0
  show ?case by (simp add: init_args_accelerated_def apg_sel)
next
  case (Suc k)
  from apg_invariant_step [OF assms conjunct1 [OF Suc] conjunct2 [OF conjunct2 [OF Suc]]]
  show ?case
    by simp
qed

text \<open>
  The error and the momentum coefficient do not depend on the step size: what holds of
  them holds for every configured step size, NaN included.
\<close>

lemma body_pg_error_nonneg_or_nan:
  "pg_error (fst (make_pg_body_fun func grad_fun params_fun prox params_prox stepsize maxls
      unroll_ls stepfactor eps) args) = NaN
   \<or> fle (Fin 0) (pg_error (fst (make_pg_body_fun func grad_fun params_fun prox params_prox
      stepsize maxls unroll_ls stepfactor eps) args))"
proof (cases args)
  case (fields iter_num curr_x curr_stepsize err)
  show ?thesis
    using error_fun_nonneg_or_nan [of "make_prox_grad prox params_prox" curr_x
        "grad_fun curr_x params_fun"]
    by (simp add: fields body_pg_eq Let_def pg_sel)
qed

lemma body_apg_error_nonneg_or_nan:
  "apg_error (snd (make_pg_body_fun func grad_fun params_fun prox params_prox stepsize maxls
      unroll_ls stepfactor eps) args) = NaN
   \<or> fle (Fin 0) (apg_error (snd (make_pg_body_fun func grad_fun params_fun prox params_prox
      stepsize maxls unroll_ls stepfactor eps) args))"
proof (cases args)
  case (fields iter_num curr_x curr_y curr_t curr_stepsize err)
  show ?thesis
    using error_fun_nonneg_or_nan [of "make_prox_grad prox params_prox"]
    by (simp add: fields body_apg_eq Let_def apg_sel)
qed

lemma body_apg_t:
  "apg_t (snd (make_pg_body_fun func grad_fun params_fun prox params_prox stepsize maxls
      unroll_ls stepfactor eps) args) = momentum_update (apg_t args)"
  by (cases args) (simp add: body_apg_eq Let_def apg_sel)

lemma pg_error_reachable:
  "pg_error ((fst (make_pg_body_fun func grad_fun params_fun prox params_prox stepsize maxls
      unroll_ls stepfactor eps) ^^ k) (init_args init)) = NaN
   \<or> fle (Fin 0) (pg_error ((fst (make_pg_body_fun func grad_fun params_fun prox params_prox
      stepsize maxls unroll_ls stepfactor eps) ^^ k) (init_args init)))"
proof (cases k)
  case 0
  then show ?thesis by (simp add: init_args_def pg_sel)
next
  case (Suc m)
  then show ?thesis by (simp add: body_pg_error_nonneg_or_nan)
qed

lemma apg_error_reachable:
  "apg_error ((snd (make_pg_body_fun func grad_fun params_fun prox params_prox stepsize maxls
      unroll_ls stepfactor eps) ^^ k) (init_args_accelerated init)) = NaN
   \<or> fle (Fin 0) (apg_error ((snd (make_pg_body_fun func grad_fun params_fun prox params_prox
      stepsize maxls unroll_ls stepfactor eps) ^^ k) (init_args_accelerated init)))"
proof (cases k)
  case 0
  then show ?thesis by (simp add: init_args_accelerated_def apg_sel)
next
  case (Suc m)
  then show ?thesis by (simp add: body_apg_error_nonneg_or_nan)
qed

lemma apg_t_reachable:
  "fle (Fin 1) (apg_t ((snd (make_pg_body_fun func grad_fun params_fun prox params_prox stepsize
      maxls unroll_ls stepfactor eps) ^^ k) (init_args_accelerated init)))"
proof (induction k)
  case 0
  show ?case by (simp add: init_args_accelerated_def apg_sel)
next
  case (Suc k)
  then show ?case by (simp add: body_apg_t momentum_update_ge_one)
qed

text \<open>
  C7 (as amended). Every state that the iteration body of the solver (shrink factor 0.5)
  reaches from the initial state in \<open>k\<close> steps has iteration count \<open>k\<close>, and each step
  increases the count by exactly 1; its error is \<open>\<ge> 0\<close> or NaN; in the accelerated
  variant its momentum coefficient is \<open>\<ge> 1\<close>; and its step size is \<open>> 0\<close>, provided the
  configured step size is not NaN. Only the statement about the step size depends on that
  proviso: the others hold for every configured step size.
\<close>

theorem solver_state_invariants:
  "(let s = (fst (make_pg_body_fun func grad_fun params_fun prox params_prox stepsize maxls
               unroll_ls (Fin (1/2)) eps) ^^ k) (init_args init)
    in pg_iter_num s = k
       \<and> (stepsize \<noteq> NaN \<longrightarrow> fgt (pg_stepsize s) (Fin 0))
       \<and> (fge (pg_error s) (Fin 0) \<or> pg_error s = NaN))
   \<and> (let s = (snd (make_pg_body_fun func grad_fun params_fun prox params_prox stepsize maxls
               unroll_ls (Fin (1/2)) eps) ^^ k) (init_args_accelerated init)
      in apg_iter_num s = k
         \<and> (stepsize \<noteq> NaN \<longrightarrow> fgt (apg_stepsize s) (Fin 0))
         \<and> (fge (apg_error s) (Fin 0) \<or> apg_error s = NaN)
         \<and> fge (apg_t s) (Fin 1))
   \<and> pg_iter_num (fst (make_pg_body_fun func grad_fun params_fun prox params_prox stepsize
        maxls unroll_ls (Fin (1/2)) eps) args) = pg_iter_num args + 1
   \<and> apg_iter_num (snd (make_pg_body_fun func grad_fun params_fun prox params_prox stepsize
        maxls unroll_ls (Fin (1/2)) eps) args') = apg_iter_num args' + 1"
proof -
  let ?s = "(fst (make_pg_body_fun func grad_fun params_fun prox params_prox stepsize
               maxls unroll_ls (Fin (1/2)) eps) ^^ k) (init_args init)"
  let ?s' = "(snd (make_pg_body_fun func grad_fun params_fun prox params_prox stepsize
               maxls unroll_ls (Fin (1/2)) eps) ^^ k) (init_args_accelerated init)"
  have n: "pg_iter_num ?s = k"
    unfolding pg_iter_num_funpow by (simp add: init_args_def pg_iter_num_def)
  have n': "apg_iter_num ?s' = k"
    unfolding apg_iter_num_funpow by (simp add: init_args_accelerated_def apg_iter_num_def)
  have p: "stepsize \<noteq> NaN \<longrightarrow> fgt (pg_stepsize ?s) (Fin 0)"
  proof
    assume "stepsize \<noteq> NaN"
    from pg_invariant_funpow [OF this, THEN conjunct1] show "fgt (pg_stepsize ?s) (Fin 0)"
      by (simp add: fgt_def)
  qed
  have p': "stepsize \<noteq> NaN \<longrightarrow> fgt (apg_stepsize ?s') (Fin 0)"
  proof
    assume "stepsize \<noteq> NaN"
    from apg_invariant_funpow [OF this, THEN conjunct1] show "fgt (apg_stepsize ?s') (Fin 0)"
      by (simp add: fgt_def)
  qed
  have e: "fge (pg_error ?s) (Fin 0) \<or> pg_error ?s = NaN"
    using pg_error_reachable [where func = func and grad_fun = grad_fun and params_fun = params_fun
        and prox = prox and params_prox = params_prox and stepsize = stepsize and maxls = maxls
        and unroll_ls = unroll_ls and stepfactor = "Fin (1/2)" and eps = eps and k = k
        and init = init]
    by (auto simp add: fge_def)
  have e': "fge (apg_error ?s') (Fin 0) \<or> apg_error ?s' = NaN"
    using apg_error_reachable [where func = func and grad_fun = grad_fun and params_fun = params_fun
        and prox = prox and params_prox = params_prox and stepsize = stepsize and maxls = maxls
        and unroll_ls = unroll_ls and stepfactor = "Fin (1/2)" and eps = eps and k = k
        and init = init]
    by (auto simp add: fge_def)
  have t: "fge (apg_t ?s') (Fin 1)"
    by (simp add: fge_def apg_t_reachable)
  have c: "pg_iter_num (fst (make_pg_body_fun func grad_fun params_fun prox params_prox stepsize
        maxls unroll_ls (Fin (1/2)) eps) args) = pg_iter_num args + 1"
    by (simp add: body_pg_iter_num)
  have c': "apg_iter_num (snd (make_pg_body_fun func grad_fun params_fun prox params_prox
        stepsize maxls unroll_ls (Fin (1/2)) eps) args') = apg_iter_num args' + 1"
    by (simp add: body_apg_iter_num)
  from n p e n' p' e' t c c' show ?thesis
    unfolding Let_def by - (intro conjI; assumption)
qed


lemma quad_apg_step_fixed:
  "snd (make_pg_body_fun quad_objective quad_gradient () prox_none () (Fin (1/2)) 15 False
          (Fin (1/2)) eps32) (0, pt 0, pt 0, Fin 1, Fin 1, PInf)
     = (1, pt (3/2), pt (3/2), Fin ((1 + sqrt 5) / 2), Fin (1/2), Fin (3/2))"
  using golden_pos
  by (simp add: body_apg_eq iter_def Let_def momentum_update_one)
    (simp add: body_eval quad_gradient_def)

text \<open>
  The instance: the states after one iteration of each variant on the quadratic with
  fixed step size 0.5.
\<close>

theorem solver_state_invariants_witness:
  "Fin (1/2) \<noteq> NaN
   \<and> (fst (make_pg_body_fun quad_objective quad_gradient () prox_none () (Fin (1/2)) 15 False
          (Fin (1/2)) eps32) ^^ 1) (init_args (pt 0))
       = (1, pt (3/2), Fin (1/2), Fin 3)
   \<and> (snd (make_pg_body_fun quad_objective quad_gradient () prox_none () (Fin (1/2)) 15 False
          (Fin (1/2)) eps32) ^^ 1) (init_args_accelerated (pt 0))
       = (1, pt (3/2), pt (3/2), Fin ((1 + sqrt 5) / 2), Fin (1/2), Fin (3/2))
   \<and> fgt (Fin (1/2)) (Fin 0) \<and> fge (Fin 3) (Fin 0) \<and> fge (Fin (3/2)) (Fin 0)
   \<and> fge (Fin ((1 + sqrt 5) / 2)) (Fin 1)"
proof -
  have h: "Fin (1/2) \<noteq> NaN" by simp
  have a: "(fst (make_pg_body_fun quad_objective quad_gradient () prox_none () (Fin (1/2)) 15
          False (Fin (1/2)) eps32) ^^ 1) (init_args (pt 0)) = (1, pt (3/2), Fin (1/2), Fin 3)"
    by (simp add: init_args_def quad_body_pg_fixed)
  have b: "(snd (make_pg_body_fun quad_objective quad_gradient () prox_none () (Fin (1/2)) 15
          False (Fin (1/2)) eps32) ^^ 1) (init_args_accelerated (pt 0))
       = (1, pt (3/2), pt (3/2), Fin ((1 + sqrt 5) / 2), Fin (1/2), Fin (3/2))"
    by (simp add: init_args_accelerated_def quad_apg_step_fixed)
  note t = solver_state_invariants [where stepsize = "Fin (1/2)" and func = quad_objective
      and grad_fun = quad_gradient and params_fun = "()" and prox = prox_none
      and params_prox = "()" and maxls = 15 and unroll_ls = False and eps = eps32 and k = 1
      and init = "pt 0" and args = "init_args (pt 0)"
      and args' = "init_args_accelerated (pt 0)"]
  from t h have "fgt (Fin (1/2)) (Fin 0) \<and> fge (Fin 3) (Fin 0) \<and> fge (Fin (3/2)) (Fin 0)
      \<and> fge (Fin ((1 + sqrt 5) / 2)) (Fin 1)"
    unfolding a b Let_def by (simp add: pg_sel apg_sel)
  with h a b show ?thesis
    by blast
qed

lemma sqrt_pg_two_steps:
  "(fst (make_pg_body_fun sqrt_objective sqrt_gradient () prox_none () (Fin 4) 15 False
          (Fin (1/2)) eps32) ^^ 2) (init_args (pt 1))
     = (2, (\<lambda>i. NaN), Fin 4, NaN)"
  by (simp add: numeral_2_eq_2 init_args_def sqrt_pg_step1 sqrt_pg_step2)

lemma quad_pg_step_nan_stepsize:
  "fst (make_pg_body_fun quad_objective quad_gradient () prox_none () NaN 15 False
          (Fin (1/2)) eps32) (init_args (pt 0))
     = (1, (\<lambda>i. NaN), NaN, Fin 3)"
  by (simp add: init_args_def body_eval quad_gradient_def)

text \<open>
  The claim as the spec states it fails on NaN. For \<open>f(x) = sqrt(x)\<close> from \<open>x = 1\<close> with
  fixed step size 4, the state after two iterations has the error NaN, which is not
  \<open>\<ge> 0\<close>. And a configured step size NaN is not \<open>\<le> 0\<close>, so it is taken as the fixed step
  size and becomes the state's step size, which is then not \<open>> 0\<close>.
\<close>

theorem solver_state_invariants_counterexample:
  "(fst (make_pg_body_fun sqrt_objective sqrt_gradient () prox_none () (Fin 4) 15 False
          (Fin (1/2)) eps32) ^^ 2) (init_args (pt 1))
     = (2, (\<lambda>i. NaN), Fin 4, NaN)
   \<and> \<not> fge (pg_error (2, (\<lambda>i::unit. NaN), Fin 4, NaN)) (Fin 0)
   \<and> fst (make_pg_body_fun quad_objective quad_gradient () prox_none () NaN 15 False
          (Fin (1/2)) eps32) (init_args (pt 0))
     = (1, (\<lambda>i. NaN), NaN, Fin 3)
   \<and> \<not> fgt (pg_stepsize (1, (\<lambda>i::unit. NaN), NaN, Fin 3)) (Fin 0)"
  by (simp add: sqrt_pg_two_steps quad_pg_step_nan_stepsize pg_sel fge_def fgt_def)

text \<open>
  C9. The error that a plain iteration stores is the fixed-point residual of the point
  it started from. So when the plain solver has performed at least one iteration, the
  error it reports is the residual of the iterate before the reported point, which is
  one iteration away from it; the accelerated solver reports the residual of the reported
  point itself.
\<close>

theorem reported_error_lags_one_step:
  "pg_error (fst (make_pg_body_fun func grad_fun params_fun prox params_prox stepsize maxls
      unroll_ls stepfactor eps) args)
     = fixed_point_residual prox params_prox (pg_x args) (grad_fun (pg_x args) params_fun)
   \<and> (proximal_gradient func grad_fun init params_fun prox params_prox stepsize maxiter maxls
         tol False verbose implicit_diff True eps = Info r \<and> 0 < opt_nit r \<longrightarrow>
       (let prev = (fst (make_pg_body_fun func grad_fun params_fun prox params_prox stepsize
                      maxls (\<not> implicit_diff) (Fin (1/2)) eps) ^^ (opt_nit r - 1))
                     (init_args init)
        in opt_x r = pg_x (fst (make_pg_body_fun func grad_fun params_fun prox params_prox
                       stepsize maxls (\<not> implicit_diff) (Fin (1/2)) eps) prev)
           \<and> opt_error r = fixed_point_residual prox params_prox (pg_x prev)
                             (grad_fun (pg_x prev) params_fun)))
   \<and> (proximal_gradient func grad_fun init params_fun prox params_prox stepsize maxiter maxls
         tol True verbose implicit_diff True eps = Info r' \<and> 0 < opt_nit r' \<longrightarrow>
       opt_error r' = fixed_point_residual prox params_prox (opt_x r')
                        (grad_fun (opt_x r') params_fun))"
proof -
  let ?b = "fst (make_pg_body_fun func grad_fun params_fun prox params_prox stepsize maxls
              (\<not> implicit_diff) (Fin (1/2)) eps)"
  let ?b' = "snd (make_pg_body_fun func grad_fun params_fun prox params_prox stepsize maxls
              (\<not> implicit_diff) (Fin (1/2)) eps)"
  let ?k = "outer_iters func grad_fun init params_fun prox params_prox stepsize maxiter maxls
              tol False implicit_diff eps"
  let ?k' = "outer_iters func grad_fun init params_fun prox params_prox stepsize maxiter maxls
              tol True implicit_diff eps"
  have plain: "let prev = (?b ^^ (opt_nit r - 1)) (init_args init)
        in opt_x r = pg_x (?b prev)
           \<and> opt_error r = fixed_point_residual prox params_prox (pg_x prev)
                             (grad_fun (pg_x prev) params_fun)"
    if res: "proximal_gradient func grad_fun init params_fun prox params_prox stepsize maxiter
         maxls tol False verbose implicit_diff True eps = Info r" and pos: "0 < opt_nit r"
  proof -
    have r: "r = OptimizeResults (pg_x ((?b ^^ ?k) (init_args init)))
                   (pg_iter_num ((?b ^^ ?k) (init_args init)))
                   (pg_error ((?b ^^ ?k) (init_args init)))"
      using res by (simp add: proximal_gradient_plain Let_def)
    have "pg_iter_num ((?b ^^ ?k) (init_args init)) = ?k"
      unfolding pg_iter_num_funpow by (simp add: init_args_def pg_iter_num_def)
    with r have n: "opt_nit r = ?k" by simp
    with pos obtain m where m: "?k = Suc m" by (cases ?k) auto
    have s: "(?b ^^ ?k) (init_args init) = ?b ((?b ^^ m) (init_args init))"
      unfolding m by simp
    have x: "opt_x r = pg_x (?b ((?b ^^ m) (init_args init)))"
      and e: "opt_error r = pg_error (?b ((?b ^^ m) (init_args init)))"
      using r s by simp_all
    show ?thesis
      unfolding Let_def n m x e by (simp add: body_pg_error)
  qed
  have acc: "opt_error r' = fixed_point_residual prox params_prox (opt_x r')
                        (grad_fun (opt_x r') params_fun)"
    if res: "proximal_gradient func grad_fun init params_fun prox params_prox stepsize maxiter
         maxls tol True verbose implicit_diff True eps = Info r'" and pos: "0 < opt_nit r'"
  proof -
    have r: "r' = OptimizeResults (apg_x ((?b' ^^ ?k') (init_args_accelerated init)))
                   (apg_iter_num ((?b' ^^ ?k') (init_args_accelerated init)))
                   (apg_error ((?b' ^^ ?k') (init_args_accelerated init)))"
      using res by (simp add: proximal_gradient_accelerated Let_def)
    have "apg_iter_num ((?b' ^^ ?k') (init_args_accelerated init)) = ?k'"
      unfolding apg_iter_num_funpow by (simp add: init_args_accelerated_def apg_iter_num_def)
    with r have n: "opt_nit r' = ?k'" by simp
    with pos obtain m where m: "?k' = Suc m" by (cases ?k') auto
    have s: "(?b' ^^ ?k') (init_args_accelerated init)
               = ?b' ((?b' ^^ m) (init_args_accelerated init))"
      unfolding m by simp
    have x: "opt_x r' = apg_x (?b' ((?b' ^^ m) (init_args_accelerated init)))"
      and e: "opt_error r' = apg_error (?b' ((?b' ^^ m) (init_args_accelerated init)))"
      using r s by simp_all
    show ?thesis
      unfolding x e by (rule body_apg_error)
  qed
  show ?thesis
    by (intro conjI impI) (rule body_pg_error, (elim conjE, erule (1) plain), (elim conjE, erule (1) acc))
qed


lemma quad_solve_accelerated:
  "proximal_gradient quad_objective quad_gradient (pt 0) () prox_none () (Fin 0) 500 15
     (Fin (1/1000)) True False True True eps32
     = Info (OptimizeResults (pt 3) 1 (Fin 0))"
  by (simp add: proximal_gradient_def Let_def loop_eval quad_body_apg_ls)

lemma quad_residual: "fixed_point_residual prox_none () (pt a) (quad_gradient (pt a) ()) = Fin \<bar>a - 3\<bar>"
  by (simp add: fixed_point_residual_def prox_none_def tree_sub_def fsub_def quad_gradient_def
      tree_l2_norm_unit_Fin)

text \<open>
  The instance: the plain solver on the quadratic (step size 0.5, \<open>tol = 1\<close>) reports the
  point 21/8 with error 3/4, the residual of the previous iterate 9/4, while the residual
  of 21/8 is 3/8; the accelerated solver with line search reports the point 3 with its own
  residual 0.
\<close>

theorem reported_error_lags_one_step_witness:
  "proximal_gradient quad_objective quad_gradient (pt 0) () prox_none () (Fin (1/2)) 500 15
     (Fin 1) False False True True eps32 = Info (OptimizeResults (pt (21/8)) 3 (Fin (3/4)))
   \<and> (fst (make_pg_body_fun quad_objective quad_gradient () prox_none () (Fin (1/2)) 15 False
          (Fin (1/2)) eps32) ^^ 2) (init_args (pt 0)) = (2, pt (9/4), Fin (1/2), Fin (3/2))
   \<and> Fin (3/4) = fixed_point_residual prox_none () (pt (9/4)) (quad_gradient (pt (9/4)) ())
   \<and> fixed_point_residual prox_none () (pt (21/8)) (quad_gradient (pt (21/8)) ()) = Fin (3/8)
   \<and> proximal_gradient quad_objective quad_gradient (pt 0) () prox_none () (Fin 0) 500 15
       (Fin (1/1000)) True False True True eps32 = Info (OptimizeResults (pt 3) 1 (Fin 0))
   \<and> Fin 0 = fixed_point_residual prox_none () (pt 3) (quad_gradient (pt 3) ())"
proof -
  note t = reported_error_lags_one_step [where func = quad_objective
      and grad_fun = quad_gradient and params_fun = "()" and prox = prox_none
      and params_prox = "()" and maxls = 15 and implicit_diff = True and eps = eps32
      and init = "pt 0" and maxiter = 500 and verbose = False]
  have p: "(0::nat) < opt_nit (OptimizeResults (pt (21/8)) 3 (Fin (3/4)))"
    and q: "(0::nat) < opt_nit (OptimizeResults (pt 3) 1 (Fin 0))"
    by simp_all
  have "Fin (3/4) = fixed_point_residual prox_none () (pt (9/4)) (quad_gradient (pt (9/4)) ())"
    using t [where stepsize = "Fin (1/2)" and tol = "Fin 1"
        and r = "OptimizeResults (pt (21/8)) 3 (Fin (3/4))", THEN conjunct2, THEN conjunct1,
        rule_format, OF conjI, OF quad_solve [of True, simplified] p]
    by (simp add: Let_def numeral_2_eq_2 pg_sel init_args_def quad_pg_step)
  moreover have "Fin 0 = fixed_point_residual prox_none () (pt 3) (quad_gradient (pt 3) ())"
    using t [where stepsize = "Fin 0" and tol = "Fin (1/1000)"
        and r' = "OptimizeResults (pt 3) 1 (Fin 0)", THEN conjunct2, THEN conjunct2,
        rule_format, OF conjI, OF quad_solve_accelerated q]
    by simp
  moreover have "fixed_point_residual prox_none () (pt (21/8)) (quad_gradient (pt (21/8)) ())
      = Fin (3/8)"
    by (simp add: quad_residual)
  ultimately show ?thesis
    using quad_solve [of True] quad_body_pg_fixed2 quad_solve_accelerated by simp
qed

end
